theory Spec2Isabelle
  imports Main
begin

section \<open>The notebook and its platform\<close>

text \<open>
  The repository is one Jupyter notebook,
  \<^verbatim>\<open>inference_pipeline_sparkml_blazingtext_dbpedia.ipynb\<close>. Its code cells run in order
  in one Python kernel; every cell is straight-line code over the kernel's global
  variables, except the \<^verbatim>\<open>try/except\<close> of cell 14 and the \<^verbatim>\<open>while\<close> loop of cell 33.
  Everything else the notebook does is a call into boto3 or the SageMaker SDK. The shell
  cells 12, 22 and 61 (\<^verbatim>\<open>!wget\<close>) download files and touch no Python variable; they
  are not part of the model.

  The model below keeps that shape. A cell is a function on the kernel state (a record
  of the global variables and the log of the calls issued so far). What the platform
  answers is a parameter: a function from the call and the number of times the same call
  was issued before to either an exception or the returned value. In one run each pair
  of a call and an occurrence number is asked at most once, so a platform whose answers
  depend on the whole history is covered as well.
\<close>

subsection \<open>Exceptions\<close>

text \<open>
  \<^verbatim>\<open>botocore.exceptions.ClientError\<close> carries \<^verbatim>\<open>response['Error']['Code']\<close> and
  \<^verbatim>\<open>response['Error']['Message']\<close>; every other exception is kept by its name.
\<close>

datatype exn = ClientError string string | OtherException string

subsection \<open>Python values and SDK objects\<close>

datatype pyval = PyStr string | PyInt int | PyBool bool | PyFloat string

text \<open>
  \<open>PyFloat\<close> keeps the literal of the source (\<^verbatim>\<open>0.05\<close>); no arithmetic is done on it.
  A \<^verbatim>\<open>dict\<close> is an association list, written in the order of the literal in the source.
  That order is representation only: the notebook's kernel is Python 2.7, where a dict
  does not iterate in the order of its literal. Where the code iterates a dict
  (\<^verbatim>\<open>json.dumps\<close>), the order is a parameter, \<open>dict_rank\<close> below.
\<close>

datatype json = JString string | JArray "json list" | JObject "(string \<times> json) list"

record s3_input =
  s3_data :: string
  distribution :: string
  input_content_type :: string
  s3_data_type :: string

record estimator =
  image_name :: string
  estimator_role :: string
  train_instance_count :: nat
  train_instance_type :: string
  train_volume_size :: nat
  train_max_run :: nat
  input_mode :: string
  output_path :: string
  hyperparameters :: "(string \<times> pyval) list"

datatype model_class = SparkMLModel | Model

record model =
  model_class :: model_class
  model_data :: string
  image :: "string option"
  env :: "(string \<times> string) list"

record pipeline_model =
  pipeline_name :: string
  pipeline_role :: string
  models :: "model list"

record transformer =
  transformer_model_name :: string
  instance_count :: nat
  instance_type :: string
  strategy :: string
  assemble_with :: string
  transformer_output_path :: string
  base_transform_job_name :: string
  accept :: string

record glue_job =
  Name :: string
  Description :: string
  Role :: string
  MaxConcurrentRuns :: nat
  Command :: "(string \<times> string) list"
  DefaultArguments :: "(string \<times> string) list"
  AllocatedCapacity :: nat
  Timeout :: nat

subsection \<open>Calls and effects\<close>

text \<open>
  One constructor per operation the notebook performs outside the kernel, with the
  arguments the source passes. \<open>Print\<close> and \<open>Sleep\<close> are local effects; the others
  are answered by the platform.
\<close>

datatype call =
    GetExecutionRole
  | GetCallerIdentity
  | CreateBucket string "string option"
  | UploadData string string string
  | Strftime string
  | CreateJob glue_job
  | StartJobRun string "(string \<times> string) list"
  | GetJobRun string string
  | GetImageUri string string string
  | Fit estimator "(string \<times> s3_input) list"
  | ModelData estimator
  | Deploy pipeline_model nat string string
  | Predict string string "string option" string
  | DeleteEndpoint string
  | Transform transformer string string string
  | TransformerWait transformer
  | Print string
  | Sleep nat

text \<open>
  \<open>dict_rank p ks k\<close> ranks the key \<open>k\<close> among the keys \<open>ks\<close> of one dict: the
  kernel iterates a dict with the keys \<open>ks\<close> in ascending rank, keys of equal rank in
  the order of the literal. Insertion order (CPython 3.7 and later) is the constant
  rank; the hash order of Python 2.7 is some other rank. Nothing is assumed of it.
\<close>

record platform =
  region_name :: string
  respond :: "call \<Rightarrow> nat \<Rightarrow> exn + string"
  dict_rank :: "string list \<Rightarrow> string \<Rightarrow> nat"

subsection \<open>The kernel state\<close>

record world =
  calls :: "call list"
  role :: string
  default_bucket :: string
  script_location :: string
  python_dep_location :: string
  jar_dep_location :: string
  timestamp_prefix :: string
  s3_input_bucket :: string
  s3_input_key_prefix :: string
  s3_output_bucket :: string
  s3_output_key_prefix :: string
  s3_model_bucket :: string
  s3_model_key_prefix :: string
  job_name :: string
  glue_job_name :: string
  job_run_id :: string
  job_run_status :: string
  training_image :: string
  s3_train_data :: string
  s3_validation_data :: string
  s3_output_location :: string
  bt_estimator :: estimator
  data_channels :: "(string \<times> s3_input) list"
  schema_json :: string
  sparkml_data :: string
  sparkml_model :: model
  bt_model :: model
  model_name :: string
  sm_model :: pipeline_model
  endpoint_name :: string
  batch_input_loc :: string
  input_data_path :: string
  output_data_path :: string
  the_transformer :: transformer

datatype outcome = Raised exn world | Completed world


text \<open>
  \<open>Raised e w\<close>: the cell stopped at an exception \<open>e\<close> that nothing caught, in
  state \<open>w\<close>; the notebook stops there. \<open>Completed w\<close>: the cell ran to its end.

  The source binds the name \<^verbatim>\<open>bt_model\<close> twice: to the Estimator in cell 39 and to the
  Model built from it in cell 49. The record keeps the two bindings in the fields
  \<open>bt_estimator\<close> and \<open>bt_model\<close>. Reading the Estimator's property
  \<^verbatim>\<open>model_data\<close> in cell 49 asks the platform for the artifact of its training job;
  it is the call \<open>ModelData\<close>.
\<close>

definition invoke :: "platform \<Rightarrow> call \<Rightarrow> world \<Rightarrow> (exn + string) \<times> world" where
  "invoke p c w = (respond p c (count_list (calls w) c), w\<lparr>calls := calls w @ [c]\<rparr>)"

definition effect :: "call \<Rightarrow> world \<Rightarrow> world" where
  "effect c w = w\<lparr>calls := calls w @ [c]\<rparr>"

definition call_then :: "platform \<Rightarrow> call \<Rightarrow> world \<Rightarrow> (string \<Rightarrow> world \<Rightarrow> outcome) \<Rightarrow> outcome" where
  "call_then p c w k = (case invoke p c w of (Inl e, w') \<Rightarrow> Raised e w' | (Inr v, w') \<Rightarrow> k v w')"

definition and_then :: "outcome \<Rightarrow> (world \<Rightarrow> outcome) \<Rightarrow> outcome" where
  "and_then r k = (case r of Raised e w \<Rightarrow> Raised e w | Completed w \<Rightarrow> k w)"

subsection \<open>Library functions of Python\<close>

text \<open>\<^verbatim>\<open>'s3://{}/{}/{}'.format(a, b, c)\<close>\<close>

definition format_s3 :: "string \<Rightarrow> string \<Rightarrow> string \<Rightarrow> string" where
  "format_s3 a b c = ''s3://'' @ a @ ''/'' @ b @ ''/'' @ c"

text \<open>\<^verbatim>\<open>s.rfind(c)\<close> for a needle of one character: the last index, or -1.\<close>

definition rfind :: "string \<Rightarrow> char \<Rightarrow> int" where
  "rfind s c = (case filter (\<lambda>i. s ! i = c) (rev [0..<length s]) of [] \<Rightarrow> - 1 | i # _ \<Rightarrow> int i)"

text \<open>
  \<^verbatim>\<open>json.dumps\<close> with its default separators, on strings, lists and dicts. Of the
  escapes, the quote, the backslash, newline, carriage return and tab are modelled; the
  strings of the notebook hold no other control character and are ASCII. The items of
  a dict are written in the order in which the kernel iterates it, \<open>dict_items rank\<close>.
\<close>

definition dict_items :: "(string list \<Rightarrow> string \<Rightarrow> nat) \<Rightarrow> (string \<times> 'a) list \<Rightarrow> (string \<times> 'a) list" where
  "dict_items rank kvs = sort_key (\<lambda>kv. rank (map fst kvs) (fst kv)) kvs"

definition json_escape :: "char \<Rightarrow> string" where
  "json_escape c =
     (if c = CHR 0x22 then [CHR 0x5C, CHR 0x22]
      else if c = CHR 0x5C then [CHR 0x5C, CHR 0x5C]
      else if c = CHR 0x0A then [CHR 0x5C, CHR ''n'']
      else if c = CHR 0x0D then [CHR 0x5C, CHR ''r'']
      else if c = CHR 0x09 then [CHR 0x5C, CHR ''t'']
      else [c])"

definition json_string :: "string \<Rightarrow> string" where
  "json_string s = [CHR 0x22] @ concat (map json_escape s) @ [CHR 0x22]"

fun join :: "string \<Rightarrow> string list \<Rightarrow> string" where
  "join sep [] = []"
| "join sep [x] = x"
| "join sep (x # y # ys) = x @ sep @ join sep (y # ys)"

fun json_dumps :: "(string list \<Rightarrow> string \<Rightarrow> nat) \<Rightarrow> json \<Rightarrow> string" where
  "json_dumps rank (JString s) = json_string s"
| "json_dumps rank (JArray xs) = ''['' @ join '', '' (map (json_dumps rank) xs) @ '']''"
| "json_dumps rank (JObject kvs) =
     ''{'' @ join '', ''
        (map (\<lambda>kv. json_string (fst kv) @ '': '' @ snd kv)
           (dict_items rank (map (\<lambda>kv. (fst kv, json_dumps rank (snd kv))) kvs))) @ ''}''"

section \<open>The cells\<close>

subsection \<open>Cell 8: session and role\<close>

definition cell_8 :: "platform \<Rightarrow> world \<Rightarrow> outcome" where
  "cell_8 p w =
     call_then p GetExecutionRole w (\<lambda>r w.
       Completed (effect (Print (drop (nat (rfind r CHR ''/'' + 1)) r)) (w\<lparr>role := r\<rparr>)))"

subsection \<open>Cell 14: the bucket and the dataset\<close>

text \<open>
  The \<^verbatim>\<open>try\<close> block with its handler. \<^verbatim>\<open>except ClientError as e\<close> catches a
  \<open>ClientError\<close> of any code; the handler's \<^verbatim>\<open>if\<close> only decides whether the message
  is printed. Any other exception leaves the cell.
\<close>

definition create_bucket_step :: "platform \<Rightarrow> world \<Rightarrow> outcome" where
  "create_bucket_step p w =
     (let region = region_name p in
      case (if region = ''us-east-1''
            then invoke p (CreateBucket (default_bucket w) None) w
            else invoke p (CreateBucket (default_bucket w) (Some region)) w) of
        (Inr _, w') \<Rightarrow> Completed w'
      | (Inl (ClientError error_code message), w') \<Rightarrow>
          (if error_code = ''BucketAlreadyOwnedByYou''
           then Completed (effect (Print
             ''A bucket with the same name already exists in your account - using the same bucket.'') w')
           else Completed w')
      | (Inl (OtherException n), w') \<Rightarrow> Raised (OtherException n) w')"

definition upload_dataset :: "platform \<Rightarrow> world \<Rightarrow> outcome" where
  "upload_dataset p w =
     call_then p (UploadData ''train.csv'' (default_bucket w) ''input/dbpedia'') w (\<lambda>_ w.
       call_then p (UploadData ''test.csv'' (default_bucket w) ''input/dbpedia'') w (\<lambda>_ w.
         Completed w))"

definition cell_14 :: "platform \<Rightarrow> world \<Rightarrow> outcome" where
  "cell_14 p w =
     call_then p GetCallerIdentity w (\<lambda>account w.
       and_then
         (create_bucket_step p
            (w\<lparr>default_bucket := ''aws-glue-'' @ account @ ''-'' @ region_name p\<rparr>))
         (upload_dataset p))"

subsection \<open>Cells 19 and 23: the script and its dependencies\<close>

definition cell_19 :: "platform \<Rightarrow> world \<Rightarrow> outcome" where
  "cell_19 p w =
     call_then p (UploadData ''dbpedia_processing.py'' (default_bucket w) ''codes'') w (\<lambda>v w.
       Completed (w\<lparr>script_location := v\<rparr>))"

definition cell_23 :: "platform \<Rightarrow> world \<Rightarrow> outcome" where
  "cell_23 p w =
     call_then p (UploadData ''python.zip'' (default_bucket w) ''dependencies/python'') w (\<lambda>v w.
       call_then p (UploadData ''mleap_spark_assembly.jar'' (default_bucket w) ''dependencies/jar'')
         (w\<lparr>python_dep_location := v\<rparr>) (\<lambda>v w.
           Completed (w\<lparr>jar_dep_location := v\<rparr>)))"

subsection \<open>Cell 25: the storage locations\<close>

definition cell_25 :: "platform \<Rightarrow> world \<Rightarrow> outcome" where
  "cell_25 p w =
     call_then p (Strftime ''%Y-%m-%d-%H-%M-%S'') w (\<lambda>v w.
       let w = w\<lparr>timestamp_prefix := v\<rparr>;
           w = w\<lparr>s3_input_bucket := default_bucket w\<rparr>;
           w = w\<lparr>s3_input_key_prefix := ''input/dbpedia''\<rparr>;
           w = w\<lparr>s3_output_bucket := default_bucket w\<rparr>;
           w = w\<lparr>s3_output_key_prefix := timestamp_prefix w @ ''/dbpedia''\<rparr>;
           w = w\<lparr>s3_model_bucket := default_bucket w\<rparr>;
           w = w\<lparr>s3_model_key_prefix := s3_output_key_prefix w @ ''/mleap''\<rparr>
       in Completed w)"

subsection \<open>Cells 28 and 30: the Glue job and its run\<close>

definition cell_28 :: "platform \<Rightarrow> world \<Rightarrow> outcome" where
  "cell_28 p w =
     (let w = w\<lparr>job_name := ''sparkml-dbpedia-'' @ timestamp_prefix w\<rparr> in
      call_then p
        (CreateJob \<lparr>
           Name = job_name w,
           Description = ''PySpark job to featurize the DBPedia dataset'',
           Role = role w,
           MaxConcurrentRuns = 1,
           Command = [(''Name'', ''glueetl''), (''ScriptLocation'', script_location w)],
           DefaultArguments =
             [(''--job-language'', ''python''),
              (''--extra-jars'', jar_dep_location w),
              (''--extra-py-files'', python_dep_location w)],
           AllocatedCapacity = 10,
           Timeout = 60\<rparr>)
        w (\<lambda>v w. Completed (effect (Print v) (w\<lparr>glue_job_name := v\<rparr>))))"

definition cell_30 :: "platform \<Rightarrow> world \<Rightarrow> outcome" where
  "cell_30 p w =
     call_then p
       (StartJobRun (job_name w)
          [(''--S3_INPUT_BUCKET'', s3_input_bucket w),
           (''--S3_INPUT_KEY_PREFIX'', s3_input_key_prefix w),
           (''--S3_OUTPUT_BUCKET'', s3_output_bucket w),
           (''--S3_OUTPUT_KEY_PREFIX'', s3_output_key_prefix w),
           (''--S3_MODEL_BUCKET'', s3_model_bucket w),
           (''--S3_MODEL_KEY_PREFIX'', s3_model_key_prefix w)])
       w (\<lambda>v w. Completed (effect (Print v) (w\<lparr>job_run_id := v\<rparr>)))"

subsection \<open>Cell 33: polling the job run\<close>

text \<open>
  The \<^verbatim>\<open>while\<close> loop may run forever, so it is a partial function: \<open>None\<close> is a loop
  that never exits. An exception of \<^verbatim>\<open>get_job_run\<close> is not caught and leaves the loop.
\<close>

definition poll_body :: "platform \<Rightarrow> world \<Rightarrow> outcome" where
  "poll_body p w =
     call_then p (GetJobRun (job_name w) (job_run_id w)) w (\<lambda>v w.
       Completed (effect (Sleep 30) (effect (Print v) (w\<lparr>job_run_status := v\<rparr>))))"

partial_function (option) poll_loop :: "platform \<Rightarrow> world \<Rightarrow> outcome option" where
  "poll_loop p w =
     (if job_run_status w \<notin> set [''FAILED'', ''SUCCEEDED'', ''STOPPED'']
      then (case poll_body p w of
              Raised e w' \<Rightarrow> Some (Raised e w')
            | Completed w' \<Rightarrow> poll_loop p w')
      else Some (Completed w))"

declare poll_loop.simps [code]

definition cell_33 :: "platform \<Rightarrow> world \<Rightarrow> outcome option" where
  "cell_33 p w =
     (case call_then p (GetJobRun (job_name w) (job_run_id w)) w (\<lambda>v w.
             Completed (w\<lparr>job_run_status := v\<rparr>)) of
        Raised e w' \<Rightarrow> Some (Raised e w')
      | Completed w' \<Rightarrow> poll_loop p w')"

subsection \<open>Cells 37 to 41: training BlazingText\<close>

text \<open>
  Nothing between the end of the loop and \<^verbatim>\<open>bt_model.fit\<close> reads
  \<^verbatim>\<open>job_run_status\<close>: the cells below are the source's, statement by statement.
\<close>

definition cell_37 :: "platform \<Rightarrow> world \<Rightarrow> outcome" where
  "cell_37 p w =
     call_then p (GetImageUri (region_name p) ''blazingtext'' ''latest'') w (\<lambda>v w.
       Completed (effect (Print v) (w\<lparr>training_image := v\<rparr>)))"

definition cell_39 :: "platform \<Rightarrow> world \<Rightarrow> outcome" where
  "cell_39 p w =
     (let w = w\<lparr>s3_train_data := format_s3 (s3_output_bucket w) (s3_output_key_prefix w) ''train''\<rparr>;
          w = w\<lparr>s3_validation_data :=
                  format_s3 (s3_output_bucket w) (s3_output_key_prefix w) ''validation''\<rparr>;
          w = w\<lparr>s3_output_location :=
                  format_s3 (s3_output_bucket w) (s3_output_key_prefix w) ''bt_model''\<rparr>;
          w = w\<lparr>bt_estimator := \<lparr>
                  image_name = training_image w,
                  estimator_role = role w,
                  train_instance_count = 1,
                  train_instance_type = ''ml.c4.xlarge'',
                  train_volume_size = 20,
                  train_max_run = 3600,
                  input_mode = ''File'',
                  output_path = s3_output_location w,
                  hyperparameters = []\<rparr>\<rparr>;
          w = w\<lparr>bt_estimator := (bt_estimator w)\<lparr>hyperparameters :=
                  [(''mode'', PyStr ''supervised''),
                   (''epochs'', PyInt 10),
                   (''min_count'', PyInt 2),
                   (''learning_rate'', PyFloat ''0.05''),
                   (''vector_dim'', PyInt 10),
                   (''early_stopping'', PyBool True),
                   (''patience'', PyInt 4),
                   (''min_epochs'', PyInt 5),
                   (''word_ngrams'', PyInt 2)]\<rparr>\<rparr>;
          train_data = \<lparr>s3_data = s3_train_data w, distribution = ''FullyReplicated'',
                  input_content_type = ''text/plain'', s3_data_type = ''S3Prefix''\<rparr>;
          validation_data = \<lparr>s3_data = s3_validation_data w, distribution = ''FullyReplicated'',
                  input_content_type = ''text/plain'', s3_data_type = ''S3Prefix''\<rparr>;
          w = w\<lparr>data_channels := [(''train'', train_data), (''validation'', validation_data)]\<rparr>
      in Completed w)"

definition cell_41 :: "platform \<Rightarrow> world \<Rightarrow> outcome" where
  "cell_41 p w =
     call_then p (Fit (bt_estimator w) (data_channels w)) w (\<lambda>_ w. Completed w)"

subsection \<open>Cells 46 and 49: the schema and the pipeline model\<close>

text \<open>
  The schema of cell 46, its dicts written in the order of the literal; the order in
  which \<^verbatim>\<open>json.dumps\<close> writes their keys is that of \<open>dict_rank\<close>, not this one.
\<close>

definition schema :: json where
  "schema =
     JObject
       [(''input'', JArray [JObject [(''name'', JString ''abstract''), (''type'', JString ''string'')]]),
        (''output'',
           JObject [(''name'', JString ''tokenized_abstract''),
                    (''type'', JString ''string''),
                    (''struct'', JString ''array'')])]"

definition cell_46 :: "platform \<Rightarrow> world \<Rightarrow> outcome" where
  "cell_46 p w =
     (let w = w\<lparr>schema_json := json_dumps (dict_rank p) schema\<rparr>
      in Completed (effect (Print (schema_json w)) w))"

definition cell_49 :: "platform \<Rightarrow> world \<Rightarrow> outcome" where
  "cell_49 p w =
     (let w = w\<lparr>sparkml_data :=
                  format_s3 (s3_model_bucket w) (s3_model_key_prefix w) ''model.tar.gz''\<rparr>;
          w = w\<lparr>sparkml_model := \<lparr>
                  model_class = SparkMLModel,
                  model_data = sparkml_data w,
                  image = None,
                  env = [(''SAGEMAKER_SPARKML_SCHEMA'', schema_json w),
                         (''SAGEMAKER_DEFAULT_INVOCATIONS_ACCEPT'',
                          ''application/jsonlines;data=text'')]\<rparr>\<rparr>
      in call_then p (ModelData (bt_estimator w)) w (\<lambda>v w.
           let w = w\<lparr>bt_model := \<lparr>
                     model_class = Model,
                     model_data = v,
                     image = Some (training_image w),
                     env = []\<rparr>\<rparr>;
               w = w\<lparr>model_name := ''inference-pipeline-'' @ timestamp_prefix w\<rparr>;
               w = w\<lparr>sm_model := \<lparr>
                     pipeline_name = model_name w,
                     pipeline_role = role w,
                     models = [sparkml_model w, bt_model w]\<rparr>\<rparr>
           in Completed w))"

subsection \<open>Cells 51 to 58: the endpoint\<close>

definition cell_51 :: "platform \<Rightarrow> world \<Rightarrow> outcome" where
  "cell_51 p w =
     (let w = w\<lparr>endpoint_name := ''inference-pipeline-ep-'' @ timestamp_prefix w\<rparr>
      in call_then p (Deploy (sm_model w) 1 ''ml.c4.xlarge'' (endpoint_name w)) w (\<lambda>_ w.
           Completed w))"

text \<open>
  \<^verbatim>\<open>csv_serializer\<close> sends a string as it is; \<^verbatim>\<open>json_serializer\<close> sends
  \<^verbatim>\<open>json.dumps\<close> of the payload. The two cells send two different texts.
\<close>

definition cell_54 :: "platform \<Rightarrow> world \<Rightarrow> outcome" where
  "cell_54 p w =
     (let payload = ''Convair was an american aircraft manufacturing company which later expanded into rockets and spacecraft.''
      in call_then p
           (Predict (endpoint_name w) ''text/csv'' (Some ''application/jsonlines'') payload)
           w (\<lambda>v w. Completed (effect (Print v) w)))"

definition cell_56 :: "platform \<Rightarrow> world \<Rightarrow> outcome" where
  "cell_56 p w =
     (let payload = JObject [(''data'', JArray [JString
            ''Berwick secondary college is situated in the outer melbourne metropolitan suburb of berwick .''])]
      in call_then p
           (Predict (endpoint_name w) ''application/json'' None (json_dumps (dict_rank p) payload))
           w (\<lambda>v w. Completed (effect (Print v) w)))"

definition cell_58 :: "platform \<Rightarrow> world \<Rightarrow> outcome" where
  "cell_58 p w = call_then p (DeleteEndpoint (endpoint_name w)) w (\<lambda>_ w. Completed w)"

subsection \<open>Cells 62 and 64: batch transform\<close>

definition cell_62 :: "platform \<Rightarrow> world \<Rightarrow> outcome" where
  "cell_62 p w =
     call_then p (UploadData ''batch_input_dbpedia.csv'' (default_bucket w) ''batch'') w (\<lambda>v w.
       Completed (w\<lparr>batch_input_loc := v\<rparr>))"

definition cell_64 :: "platform \<Rightarrow> world \<Rightarrow> outcome" where
  "cell_64 p w =
     (let w = w\<lparr>input_data_path := format_s3 (default_bucket w) ''batch'' ''batch_input_dbpedia.csv''\<rparr>;
          w = w\<lparr>output_data_path :=
                  format_s3 (default_bucket w) ''batch_output/dbpedia'' (timestamp_prefix w)\<rparr>;
          w = w\<lparr>the_transformer := \<lparr>
                  transformer_model_name = model_name w,
                  instance_count = 1,
                  instance_type = ''ml.m4.xlarge'',
                  strategy = ''SingleRecord'',
                  assemble_with = ''Line'',
                  transformer_output_path = output_data_path w,
                  base_transform_job_name = ''serial-inference-batch'',
                  accept = ''text/csv''\<rparr>\<rparr>
      in call_then p (Transform (the_transformer w) (input_data_path w) ''text/csv'' ''Line'') w
           (\<lambda>_ w. call_then p (TransformerWait (the_transformer w)) w (\<lambda>_ w. Completed w)))"

section \<open>Running the notebook\<close>

text \<open>
  The cells run in the order of the file; the first exception that leaves a cell stops
  the run, and a loop that never exits leaves no outcome at all.
\<close>

type_synonym cell = "platform \<Rightarrow> world \<Rightarrow> outcome option"

definition total :: "(platform \<Rightarrow> world \<Rightarrow> outcome) \<Rightarrow> cell" where
  "total f p w = Some (f p w)"

fun run_cells :: "platform \<Rightarrow> cell list \<Rightarrow> world \<Rightarrow> outcome option" where
  "run_cells p [] w = Some (Completed w)"
| "run_cells p (c # cs) w =
     (case c p w of
        None \<Rightarrow> None
      | Some (Raised e w') \<Rightarrow> Some (Raised e w')
      | Some (Completed w') \<Rightarrow> run_cells p cs w')"

definition notebook_cells :: "cell list" where
  "notebook_cells =
     [total cell_8, total cell_14, total cell_19, total cell_23, total cell_25,
      total cell_28, total cell_30, cell_33, total cell_37, total cell_39, total cell_41,
      total cell_46, total cell_49, total cell_51, total cell_54, total cell_56,
      total cell_58, total cell_62, total cell_64]"

definition notebook :: "platform \<Rightarrow> world \<Rightarrow> outcome option" where
  "notebook p w = run_cells p notebook_cells w"

section \<open>Notions used in the statements\<close>

subsection \<open>Outcomes\<close>

definition world_of :: "outcome \<Rightarrow> world" where
  "world_of r = (case r of Raised e w \<Rightarrow> w | Completed w \<Rightarrow> w)"

subsection \<open>The status queries of a job run\<close>

text \<open>
  \<open>status_query w\<close> is the call the poller repeats; \<open>queries_issued w\<close> counts the
  times it was issued so far, so the platform's answer to the next query is
  \<open>respond p (status_query w) (queries_issued w)\<close>. \<open>answers p c n vs\<close>: from the
  \<open>n\<close>-th on, the platform answers the call \<open>c\<close> with the values \<open>vs\<close>, in order.
\<close>

definition status_query :: "world \<Rightarrow> call" where
  "status_query w = GetJobRun (job_name w) (job_run_id w)"

definition queries_issued :: "world \<Rightarrow> nat" where
  "queries_issued w = count_list (calls w) (status_query w)"

fun answers :: "platform \<Rightarrow> call \<Rightarrow> nat \<Rightarrow> string list \<Rightarrow> bool" where
  "answers p c n [] = True"
| "answers p c n (v # vs) = (respond p c n = Inr v \<and> answers p c (Suc n) vs)"

text \<open>
  The calls of one iteration that was answered \<open>v\<close>, and the calls of the whole cell
  when its queries were answered \<open>vs\<close>: the query before the loop, then the iterations.
\<close>

definition iteration_calls :: "call \<Rightarrow> string \<Rightarrow> call list" where
  "iteration_calls g v = [g, Print v, Sleep 30]"

fun poll_trace :: "call \<Rightarrow> string list \<Rightarrow> call list" where
  "poll_trace g [] = []"
| "poll_trace g (v # vs) = g # concat (map (iteration_calls g) vs)"

definition sleeps :: "call list \<Rightarrow> nat list" where
  "sleeps cs = concat (map (\<lambda>c. case c of Sleep d \<Rightarrow> [d] | _ \<Rightarrow> []) cs)"

text \<open>
  The loop of cell 33 cut after at most \<open>n\<close> iterations, and the cell with its loop cut
  so: the state in which the run stands then. \<open>poll_loop_steps\<close> and
  \<open>cell_33_unrolled\<close> below show that the run of the loop goes through that state.
\<close>

fun poll_steps :: "platform \<Rightarrow> nat \<Rightarrow> world \<Rightarrow> outcome" where
  "poll_steps p 0 w = Completed w"
| "poll_steps p (Suc n) w =
     (if job_run_status w \<notin> set [''FAILED'', ''SUCCEEDED'', ''STOPPED'']
      then (case poll_body p w of
              Raised e w' \<Rightarrow> Raised e w'
            | Completed w' \<Rightarrow> poll_steps p n w')
      else Completed w)"

definition cell_33_steps :: "platform \<Rightarrow> nat \<Rightarrow> world \<Rightarrow> outcome" where
  "cell_33_steps p n w =
     (case call_then p (GetJobRun (job_name w) (job_run_id w)) w (\<lambda>v w.
             Completed (w\<lparr>job_run_status := v\<rparr>)) of
        Raised e w' \<Rightarrow> Raised e w'
      | Completed w' \<Rightarrow> poll_steps p n w')"

definition exits_terminal :: "outcome \<Rightarrow> bool" where
  "exits_terminal r =
     (case r of Raised e w \<Rightarrow> True
      | Completed w \<Rightarrow> job_run_status w \<in> {''FAILED'', ''SUCCEEDED'', ''STOPPED''})"

definition never_terminal :: "platform \<Rightarrow> world \<Rightarrow> bool" where
  "never_terminal p w =
     (\<forall>k. \<exists>v. respond p (status_query w) (queries_issued w + k) = Inr v
         \<and> v \<notin> {''FAILED'', ''SUCCEEDED'', ''STOPPED''})"

subsection \<open>Concrete runs\<close>

text \<open>
  A kernel in which no call was issued yet. The record needs a value in every field;
  no cell reads a variable before the notebook has assigned it.
\<close>

definition fresh_kernel :: world where
  "fresh_kernel = \<lparr>calls = [], role = [], default_bucket = [], script_location = [],
     python_dep_location = [], jar_dep_location = [], timestamp_prefix = [],
     s3_input_bucket = [], s3_input_key_prefix = [], s3_output_bucket = [],
     s3_output_key_prefix = [], s3_model_bucket = [], s3_model_key_prefix = [],
     job_name = [], glue_job_name = [], job_run_id = [], job_run_status = [],
     training_image = [], s3_train_data = [], s3_validation_data = [],
     s3_output_location = [],
     bt_estimator = \<lparr>image_name = [], estimator_role = [], train_instance_count = 0,
       train_instance_type = [], train_volume_size = 0, train_max_run = 0, input_mode = [],
       output_path = [], hyperparameters = []\<rparr>,
     data_channels = [], schema_json = [], sparkml_data = [],
     sparkml_model = \<lparr>model_class = Model, model_data = [], image = None, env = []\<rparr>,
     bt_model = \<lparr>model_class = Model, model_data = [], image = None, env = []\<rparr>,
     model_name = [],
     sm_model = \<lparr>pipeline_name = [], pipeline_role = [], models = []\<rparr>,
     endpoint_name = [], batch_input_loc = [], input_data_path = [], output_data_path = [],
     the_transformer = \<lparr>transformer_model_name = [], instance_count = 0, instance_type = [],
       strategy = [], assemble_with = [], transformer_output_path = [],
       base_transform_job_name = [], accept = []\<rparr>\<rparr>"

text \<open>
  A platform on which every call returns; the job run is answered \<^verbatim>\<open>RUNNING\<close> twice
  and then with the status \<open>final\<close>. Its dicts iterate in the order of their literals.
\<close>

definition platform_with :: "string \<Rightarrow> platform" where
  "platform_with final = \<lparr>region_name = ''eu-west-1'',
     respond = (\<lambda>c n. case c of
        GetJobRun _ _ \<Rightarrow> Inr (if n < 2 then ''RUNNING'' else final)
      | GetCallerIdentity \<Rightarrow> Inr ''123456789012''
      | Strftime _ \<Rightarrow> Inr ''2019-01-01-00-00-00''
      | _ \<Rightarrow> Inr ''ok''),
     dict_rank = (\<lambda>ks k. 0)\<rparr>"

text \<open>
  Platforms on which \<^verbatim>\<open>create_bucket\<close> raises a \<open>ClientError\<close> with the code
  \<open>code\<close>, and every other call returns.
\<close>

definition platform_refusing :: "string \<Rightarrow> platform" where
  "platform_refusing code = \<lparr>region_name = ''eu-west-1'',
     respond = (\<lambda>c n. case c of
        CreateBucket _ _ \<Rightarrow> Inl (ClientError code ''refused'')
      | GetCallerIdentity \<Rightarrow> Inr ''123456789012''
      | _ \<Rightarrow> Inr ''ok''),
     dict_rank = (\<lambda>ks k. 0)\<rparr>"

subsection \<open>The bucket\<close>

text \<open>
  \<open>location_constraint p\<close> is the second argument of the \<^verbatim>\<open>create_bucket\<close> call of
  cell 14. \<open>bucket_created p\<close> is the platform \<open>p\<close> except that every
  \<^verbatim>\<open>create_bucket\<close> returns: the fresh creation. \<open>without_prints\<close> forgets what was
  printed.
\<close>

definition location_constraint :: "platform \<Rightarrow> string option" where
  "location_constraint p = (if region_name p = ''us-east-1'' then None else Some (region_name p))"

definition bucket_created :: "platform \<Rightarrow> platform" where
  "bucket_created p =
     p\<lparr>respond := (\<lambda>c n. case c of CreateBucket b l \<Rightarrow> Inr [] | _ \<Rightarrow> respond p c n)\<rparr>"

definition is_print :: "call \<Rightarrow> bool" where
  "is_print c = (case c of Print s \<Rightarrow> True | _ \<Rightarrow> False)"

definition without_prints :: "outcome \<Rightarrow> outcome" where
  "without_prints r =
     (case r of
        Raised e w \<Rightarrow> Raised e (w\<lparr>calls := filter (\<lambda>c. \<not> is_print c) (calls w)\<rparr>)
      | Completed w \<Rightarrow> Completed (w\<lparr>calls := filter (\<lambda>c. \<not> is_print c) (calls w)\<rparr>))"

subsection \<open>The status and the cells after the loop\<close>

text \<open>\<open>with_status s r\<close> is the outcome \<open>r\<close> with \<^verbatim>\<open>job_run_status\<close> set to \<open>s\<close>.\<close>

definition with_status :: "string \<Rightarrow> outcome \<Rightarrow> outcome" where
  "with_status s r =
     (case r of
        Raised e w \<Rightarrow> Raised e (w\<lparr>job_run_status := s\<rparr>)
      | Completed w \<Rightarrow> Completed (w\<lparr>job_run_status := s\<rparr>))"

definition training_cells :: "cell list" where
  "training_cells = [total cell_37, total cell_39, total cell_41]"

subsection \<open>What the log holds\<close>

text \<open>
  The calls of one kind in a log, in order: the formats of the clock readings, the job
  runs started (job name and arguments), the trainings, the Estimators whose model
  artifact was asked for, the deployments (pipeline model
  and endpoint name), the endpoints that requests were sent to, and the transform jobs.
\<close>

definition clock_reads :: "call list \<Rightarrow> string list" where
  "clock_reads cs = concat (map (\<lambda>c. case c of Strftime f \<Rightarrow> [f] | _ \<Rightarrow> []) cs)"

definition job_runs_started :: "call list \<Rightarrow> (string \<times> (string \<times> string) list) list" where
  "job_runs_started cs = concat (map (\<lambda>c. case c of StartJobRun n a \<Rightarrow> [(n, a)] | _ \<Rightarrow> []) cs)"

definition trainings :: "call list \<Rightarrow> (estimator \<times> (string \<times> s3_input) list) list" where
  "trainings cs = concat (map (\<lambda>c. case c of Fit e d \<Rightarrow> [(e, d)] | _ \<Rightarrow> []) cs)"

definition artifact_reads :: "call list \<Rightarrow> estimator list" where
  "artifact_reads cs = concat (map (\<lambda>c. case c of ModelData e \<Rightarrow> [e] | _ \<Rightarrow> []) cs)"

definition deployments :: "call list \<Rightarrow> (pipeline_model \<times> string) list" where
  "deployments cs = concat (map (\<lambda>c. case c of Deploy m n t e \<Rightarrow> [(m, e)] | _ \<Rightarrow> []) cs)"

definition predictions :: "call list \<Rightarrow> string list" where
  "predictions cs = concat (map (\<lambda>c. case c of Predict e t a b \<Rightarrow> [e] | _ \<Rightarrow> []) cs)"

definition transforms :: "call list \<Rightarrow> (transformer \<times> string \<times> string \<times> string) list" where
  "transforms cs =
     concat (map (\<lambda>c. case c of Transform t d ct st \<Rightarrow> [(t, d, ct, st)] | _ \<Rightarrow> []) cs)"

text \<open>
  \<open>is_poll_call\<close>: the calls cell 33 issues.
\<close>

definition is_poll_call :: "call \<Rightarrow> bool" where
  "is_poll_call c =
     (case c of GetJobRun j r \<Rightarrow> True | Print s \<Rightarrow> True | Sleep d \<Rightarrow> True | _ \<Rightarrow> False)"

subsection \<open>The state between the cells\<close>

text \<open>
  \<open>stage_inv p n w\<close> holds of the kernel state \<open>w\<close> when the first \<open>n\<close> cells of
  the notebook have completed on the platform \<open>p\<close>, starting with an empty log: what
  the log holds of each kind, and how the variables assigned so far hang together.
\<close>

definition stage_inv :: "platform \<Rightarrow> nat \<Rightarrow> world \<Rightarrow> bool" where
  "stage_inv p n w \<longleftrightarrow>
     clock_reads (calls w) = (if n < 5 then [] else [''%Y-%m-%d-%H-%M-%S'']) \<and>
     job_runs_started (calls w) =
       (if n < 7 then []
        else [(job_name w,
               [(''--S3_INPUT_BUCKET'', s3_input_bucket w),
                (''--S3_INPUT_KEY_PREFIX'', s3_input_key_prefix w),
                (''--S3_OUTPUT_BUCKET'', s3_output_bucket w),
                (''--S3_OUTPUT_KEY_PREFIX'', s3_output_key_prefix w),
                (''--S3_MODEL_BUCKET'', s3_model_bucket w),
                (''--S3_MODEL_KEY_PREFIX'', s3_model_key_prefix w)])]) \<and>
     trainings (calls w) = (if n < 11 then [] else [(bt_estimator w, data_channels w)]) \<and>
     artifact_reads (calls w) = (if n < 13 then [] else [bt_estimator w]) \<and>
     deployments (calls w) = (if n < 14 then [] else [(sm_model w, endpoint_name w)]) \<and>
     predictions (calls w) =
       (if n < 15 then [] else if n < 16 then [endpoint_name w]
        else [endpoint_name w, endpoint_name w]) \<and>
     transforms (calls w) =
       (if n < 19 then [] else [(the_transformer w, input_data_path w, ''text/csv'', ''Line'')]) \<and>
     (5 \<le> n \<longrightarrow>
        respond p (Strftime ''%Y-%m-%d-%H-%M-%S'') 0 = Inr (timestamp_prefix w) \<and>
        s3_input_bucket w = default_bucket w \<and>
        s3_input_key_prefix w = ''input/dbpedia'' \<and>
        s3_output_bucket w = default_bucket w \<and>
        s3_output_key_prefix w = timestamp_prefix w @ ''/dbpedia'' \<and>
        s3_model_bucket w = default_bucket w \<and>
        s3_model_key_prefix w = s3_output_key_prefix w @ ''/mleap'') \<and>
     (6 \<le> n \<longrightarrow> job_name w = ''sparkml-dbpedia-'' @ timestamp_prefix w) \<and>
     (10 \<le> n \<longrightarrow>
        s3_train_data w = format_s3 (s3_output_bucket w) (s3_output_key_prefix w) ''train'' \<and>
        s3_validation_data w =
          format_s3 (s3_output_bucket w) (s3_output_key_prefix w) ''validation'' \<and>
        map (\<lambda>kv. (fst kv, s3_data (snd kv))) (data_channels w) =
          [(''train'', s3_train_data w), (''validation'', s3_validation_data w)]) \<and>
     (12 \<le> n \<longrightarrow> schema_json w = json_dumps (dict_rank p) schema) \<and>
     (13 \<le> n \<longrightarrow>
        sparkml_data w = format_s3 (s3_model_bucket w) (s3_model_key_prefix w) ''model.tar.gz'' \<and>
        sparkml_model w =
          \<lparr>model_class = SparkMLModel, model_data = sparkml_data w, image = None,
           env = [(''SAGEMAKER_SPARKML_SCHEMA'', schema_json w),
                  (''SAGEMAKER_DEFAULT_INVOCATIONS_ACCEPT'', ''application/jsonlines;data=text'')]\<rparr> \<and>
        respond p (ModelData (bt_estimator w)) 0 = Inr (model_data (bt_model w)) \<and>
        model_class (bt_model w) = Model \<and>
        image (bt_model w) = Some (training_image w) \<and>
        env (bt_model w) = [] \<and>
        model_name w = ''inference-pipeline-'' @ timestamp_prefix w \<and>
        sm_model w =
          \<lparr>pipeline_name = model_name w, pipeline_role = role w,
           models = [sparkml_model w, bt_model w]\<rparr>) \<and>
     (14 \<le> n \<longrightarrow> endpoint_name w = ''inference-pipeline-ep-'' @ timestamp_prefix w) \<and>
     (19 \<le> n \<longrightarrow>
        the_transformer w =
          \<lparr>transformer_model_name = model_name w, instance_count = 1,
           instance_type = ''ml.m4.xlarge'', strategy = ''SingleRecord'',
           assemble_with = ''Line'', transformer_output_path = output_data_path w,
           base_transform_job_name = ''serial-inference-batch'', accept = ''text/csv''\<rparr>)"

subsection \<open>The platform's side of a pipeline model\<close>




section \<open>The job-completion poller\<close>

subsection \<open>One iteration\<close>

lemma calls_status_swap:
  "w\<lparr>calls := cs, job_run_status := v\<rparr> = w\<lparr>job_run_status := v, calls := cs\<rparr>"
  by (cases w) simp

lemma status_query_upd [simp]:
  "status_query (w\<lparr>job_run_status := v, calls := cs\<rparr>) = status_query w"
  by (simp add: status_query_def)

lemma queries_issued_iteration [simp]:
  "queries_issued (w\<lparr>job_run_status := v, calls := calls w @ iteration_calls (status_query w) u\<rparr>)
     = Suc (queries_issued w)"
  by (simp add: queries_issued_def status_query_def iteration_calls_def)

lemma queries_issued_first [simp]:
  "queries_issued (w\<lparr>job_run_status := v, calls := calls w @ [status_query w]\<rparr>)
     = Suc (queries_issued w)"
  by (simp add: queries_issued_def status_query_def)

lemma poll_body_answer:
  "respond p (status_query w) (queries_issued w) = Inr v \<Longrightarrow>
   poll_body p w =
     Completed (w\<lparr>job_run_status := v, calls := calls w @ iteration_calls (status_query w) v\<rparr>)"
  by (simp add: poll_body_def call_then_def invoke_def effect_def status_query_def
      queries_issued_def iteration_calls_def)

lemma poll_body_Completed:
  assumes "poll_body p w = Completed w'"
  shows "\<exists>v. respond p (status_query w) (queries_issued w) = Inr v \<and>
     w' = w\<lparr>job_run_status := v, calls := calls w @ iteration_calls (status_query w) v\<rparr>"
proof (cases "respond p (status_query w) (queries_issued w)")
  case (Inl e)
  with assms show ?thesis
    by (simp add: poll_body_def call_then_def invoke_def status_query_def queries_issued_def)
next
  case (Inr v)
  with assms poll_body_answer [OF Inr] show ?thesis by simp
qed

lemma poll_loop_exit:
  "job_run_status w \<in> {''FAILED'', ''SUCCEEDED'', ''STOPPED''} \<Longrightarrow>
   poll_loop p w = Some (Completed w)"
  by (subst poll_loop.simps) auto

lemma poll_loop_iterate:
  "job_run_status w \<notin> {''FAILED'', ''SUCCEEDED'', ''STOPPED''} \<Longrightarrow>
   respond p (status_query w) (queries_issued w) = Inr v \<Longrightarrow>
   poll_loop p w =
     poll_loop p (w\<lparr>job_run_status := v, calls := calls w @ iteration_calls (status_query w) v\<rparr>)"
  by (subst poll_loop.simps) (simp add: poll_body_answer)

lemma cell_33_first:
  "respond p (status_query w) (queries_issued w) = Inr v \<Longrightarrow>
   cell_33 p w = poll_loop p (w\<lparr>job_run_status := v, calls := calls w @ [status_query w]\<rparr>)"
  by (simp add: cell_33_def call_then_def invoke_def status_query_def queries_issued_def
      calls_status_swap)

lemma cell_33_steps_first:
  "respond p (status_query w) (queries_issued w) = Inr v \<Longrightarrow>
   cell_33_steps p n w =
     poll_steps p n (w\<lparr>job_run_status := v, calls := calls w @ [status_query w]\<rparr>)"
  by (simp add: cell_33_steps_def call_then_def invoke_def status_query_def queries_issued_def
      calls_status_swap)

subsection \<open>A status sequence that reaches a terminal value\<close>

lemma answers_append:
  "answers p c n (xs @ ys) = (answers p c n xs \<and> answers p c (n + length xs) ys)"
  by (induction xs arbitrary: n) auto

lemma poll_loop_sequence:
  "answers p (status_query w) (queries_issued w) (vs @ [t]) \<Longrightarrow>
   job_run_status w \<notin> {''FAILED'', ''SUCCEEDED'', ''STOPPED''} \<Longrightarrow>
   \<forall>v\<in>set vs. v \<notin> {''FAILED'', ''SUCCEEDED'', ''STOPPED''} \<Longrightarrow>
   t \<in> {''FAILED'', ''SUCCEEDED'', ''STOPPED''} \<Longrightarrow>
   poll_loop p w =
     Some (Completed (w\<lparr>job_run_status := t,
        calls := calls w @ concat (map (iteration_calls (status_query w)) (vs @ [t]))\<rparr>))"
proof (induction vs arbitrary: w)
  case Nil
  then have a: "respond p (status_query w) (queries_issued w) = Inr t" by simp
  have "job_run_status (w\<lparr>job_run_status := t,
      calls := calls w @ iteration_calls (status_query w) t\<rparr>) \<in> {''FAILED'', ''SUCCEEDED'', ''STOPPED''}"
    using Nil.prems(4) by simp
  then show ?case
    by (simp add: poll_loop_iterate [OF Nil.prems(2) a] poll_loop_exit)
next
  case (Cons v vs)
  let ?w = "w\<lparr>job_run_status := v, calls := calls w @ iteration_calls (status_query w) v\<rparr>"
  from Cons.prems(1) have a: "respond p (status_query w) (queries_issued w) = Inr v"
    and b: "answers p (status_query ?w) (queries_issued ?w) (vs @ [t])"
    by simp_all
  have c: "job_run_status ?w \<notin> {''FAILED'', ''SUCCEEDED'', ''STOPPED''}"
    using Cons.prems(3) by simp
  have d: "\<forall>v\<in>set vs. v \<notin> {''FAILED'', ''SUCCEEDED'', ''STOPPED''}"
    using Cons.prems(3) by simp
  show ?case
    by (simp add: poll_loop_iterate [OF Cons.prems(2) a] Cons.IH [OF b c d Cons.prems(4)])
qed

lemma cell_33_sequence:
  assumes "answers p (status_query w) (queries_issued w) (vs @ [t])"
    and "\<forall>v\<in>set vs. v \<notin> {''FAILED'', ''SUCCEEDED'', ''STOPPED''}"
    and "t \<in> {''FAILED'', ''SUCCEEDED'', ''STOPPED''}"
  shows "cell_33 p w =
     Some (Completed (w\<lparr>job_run_status := t,
        calls := calls w @ poll_trace (status_query w) (vs @ [t])\<rparr>))"
proof (cases vs)
  case Nil
  with assms(1) have a: "respond p (status_query w) (queries_issued w) = Inr t" by simp
  have "job_run_status (w\<lparr>job_run_status := t, calls := calls w @ [status_query w]\<rparr>)
      \<in> {''FAILED'', ''SUCCEEDED'', ''STOPPED''}"
    using assms(3) by simp
  then show ?thesis using Nil by (simp add: cell_33_first [OF a] poll_loop_exit)
next
  case (Cons v us)
  let ?w = "w\<lparr>job_run_status := v, calls := calls w @ [status_query w]\<rparr>"
  from assms(1) Cons have a: "respond p (status_query w) (queries_issued w) = Inr v"
    and b: "answers p (status_query ?w) (queries_issued ?w) (us @ [t])"
    by simp_all
  have c: "job_run_status ?w \<notin> {''FAILED'', ''SUCCEEDED'', ''STOPPED''}"
    using assms(2) Cons by simp
  have d: "\<forall>v\<in>set us. v \<notin> {''FAILED'', ''SUCCEEDED'', ''STOPPED''}"
    using assms(2) Cons by simp
  show ?thesis
    by (simp add: cell_33_first [OF a] poll_loop_sequence [OF b c d assms(3)] Cons)
qed

lemma find_terminal_split:
  assumes "xs \<noteq> []" and "last xs \<in> T"
  shows "\<exists>vs t rest. xs = vs @ t # rest \<and> (\<forall>v\<in>set vs. v \<notin> T) \<and> t \<in> T
     \<and> List.find (\<lambda>v. v \<in> T) xs = Some t \<and> takeWhile (\<lambda>v. v \<notin> T) xs = vs"
proof -
  from assms have "\<exists>v\<in>set xs. v \<in> T" using last_in_set by blast
  then obtain t where a: "List.find (\<lambda>v. v \<in> T) xs = Some t"
    by (cases "List.find (\<lambda>v. v \<in> T) xs") (auto simp: find_None_iff)
  then obtain i where i: "i < length xs" "xs ! i \<in> T" "t = xs ! i" "\<forall>j<i. xs ! j \<notin> T"
    by (auto simp: find_Some_iff)
  have "xs = take i xs @ t # drop (Suc i) xs"
    using i(1,3) by (simp add: id_take_nth_drop)
  moreover have b: "\<forall>v\<in>set (take i xs). v \<notin> T"
    using i(1,4) by (auto simp: in_set_conv_nth)
  moreover have "takeWhile (\<lambda>v. v \<notin> T) xs = take i xs"
  proof -
    have "takeWhile (\<lambda>v. v \<notin> T) (take i xs @ t # drop (Suc i) xs) = take i xs"
      using b i(2,3) by simp
    with \<open>xs = take i xs @ t # drop (Suc i) xs\<close> show ?thesis by simp
  qed
  ultimately show ?thesis using a i(2,3) by blast
qed

lemma poll_loop_exit_status:
  "poll_loop p w = Some r \<Longrightarrow> exits_terminal r"
proof (induct rule: poll_loop.raw_induct [rotated 1, consumes 1])
  case (1 f p w r)
  note IH = "1"(1) and eq = "1"(2)
  show ?case
  proof (cases "job_run_status w \<notin> {''FAILED'', ''SUCCEEDED'', ''STOPPED''}")
    case True
    show ?thesis
    proof (cases "poll_body p w")
      case (Raised e w')
      with eq True show ?thesis by (auto simp: exits_terminal_def)
    next
      case (Completed w')
      with eq True have "f p w' = Some r" by simp
      then show ?thesis by (rule IH)
    qed
  next
    case False
    with eq show ?thesis by (auto simp: exits_terminal_def)
  qed
qed

lemma exits_at_once_iff:
  "(\<forall>p w. poll_loop p (w\<lparr>job_run_status := v\<rparr>) = Some (Completed (w\<lparr>job_run_status := v\<rparr>)))
     \<longleftrightarrow> v \<in> {''FAILED'', ''SUCCEEDED'', ''STOPPED''}"
proof
  assume a: "\<forall>p w. poll_loop p (w\<lparr>job_run_status := v\<rparr>)
      = Some (Completed (w\<lparr>job_run_status := v\<rparr>))"
  then have "poll_loop (platform_with []) (fresh_kernel\<lparr>job_run_status := v\<rparr>)
      = Some (Completed (fresh_kernel\<lparr>job_run_status := v\<rparr>))"
    by blast
  from poll_loop_exit_status [OF this] show "v \<in> {''FAILED'', ''SUCCEEDED'', ''STOPPED''}"
    by (simp add: exits_terminal_def)
next
  assume "v \<in> {''FAILED'', ''SUCCEEDED'', ''STOPPED''}"
  then have "job_run_status (w\<lparr>job_run_status := v\<rparr>) \<in> {''FAILED'', ''SUCCEEDED'', ''STOPPED''}"
    for w :: world
    by simp
  then show "\<forall>p w. poll_loop p (w\<lparr>job_run_status := v\<rparr>)
      = Some (Completed (w\<lparr>job_run_status := v\<rparr>))"
    using poll_loop_exit by blast
qed

text \<open>
  \<^bold>\<open>C1.\<close> Let the platform answer the status queries with a sequence \<open>xs\<close> that ends
  in a terminal value, one of \<^verbatim>\<open>FAILED\<close>, \<^verbatim>\<open>SUCCEEDED\<close>, \<^verbatim>\<open>STOPPED\<close>. Then cell 33
  terminates, and \<^verbatim>\<open>job_run_status\<close> after the loop is the first terminal value of
  \<open>xs\<close>. Nothing else of the kernel state changes but the log, which holds one query per
  answer up to that value, each query of the loop followed by its print and a sleep of
  30 seconds. The terminal values are exactly these three: the loop exits at once, on
  every platform and in every state, if and only if the status it holds is one of them.
\<close>

theorem poller_returns_first_terminal:
  assumes "answers p (status_query w) (queries_issued w) xs"
    and "xs \<noteq> []"
    and "last xs \<in> {''FAILED'', ''SUCCEEDED'', ''STOPPED''}"
  shows "(\<exists>t. List.find (\<lambda>v. v \<in> {''FAILED'', ''SUCCEEDED'', ''STOPPED''}) xs = Some t
       \<and> cell_33 p w =
           Some (Completed (w\<lparr>job_run_status := t,
              calls := calls w @ poll_trace (status_query w)
                (takeWhile (\<lambda>v. v \<notin> {''FAILED'', ''SUCCEEDED'', ''STOPPED''}) xs @ [t])\<rparr>)))
     \<and> (\<forall>v. (\<forall>p' w'. poll_loop p' (w'\<lparr>job_run_status := v\<rparr>)
                  = Some (Completed (w'\<lparr>job_run_status := v\<rparr>)))
            \<longleftrightarrow> v \<in> {''FAILED'', ''SUCCEEDED'', ''STOPPED''})"
proof -
  from find_terminal_split [OF assms(2,3)] obtain vs t rest where
    xs: "xs = vs @ t # rest"
    and vs: "\<forall>v\<in>set vs. v \<notin> {''FAILED'', ''SUCCEEDED'', ''STOPPED''}"
    and t: "t \<in> {''FAILED'', ''SUCCEEDED'', ''STOPPED''}"
    and f: "List.find (\<lambda>v. v \<in> {''FAILED'', ''SUCCEEDED'', ''STOPPED''}) xs = Some t"
    and tw: "takeWhile (\<lambda>v. v \<notin> {''FAILED'', ''SUCCEEDED'', ''STOPPED''}) xs = vs"
    by blast
  have "xs = (vs @ [t]) @ rest" using xs by simp
  with assms(1) have "answers p (status_query w) (queries_issued w) (vs @ [t])"
    using answers_append by metis
  from cell_33_sequence [OF this vs t] f tw
  have "\<exists>t. List.find (\<lambda>v. v \<in> {''FAILED'', ''SUCCEEDED'', ''STOPPED''}) xs = Some t
       \<and> cell_33 p w =
           Some (Completed (w\<lparr>job_run_status := t,
              calls := calls w @ poll_trace (status_query w)
                (takeWhile (\<lambda>v. v \<notin> {''FAILED'', ''SUCCEEDED'', ''STOPPED''}) xs @ [t])\<rparr>))"
    by simp
  with exits_at_once_iff show ?thesis by (intro conjI allI)
qed

theorem poller_returns_first_terminal_witness:
  "cell_33 (platform_with ''FAILED'') fresh_kernel =
     Some (Completed (fresh_kernel\<lparr>job_run_status := ''FAILED'',
       calls := [GetJobRun [] [],
                 GetJobRun [] [], Print ''RUNNING'', Sleep 30,
                 GetJobRun [] [], Print ''FAILED'', Sleep 30]\<rparr>))"
proof -
  have a: "answers (platform_with ''FAILED'') (status_query fresh_kernel)
      (queries_issued fresh_kernel) [''RUNNING'', ''RUNNING'', ''FAILED'', ''FAILED'']"
    by (simp add: platform_with_def status_query_def queries_issued_def fresh_kernel_def)
  have b: "[''RUNNING'', ''RUNNING'', ''FAILED'', ''FAILED''] \<noteq> []" by simp
  have c: "last [''RUNNING'', ''RUNNING'', ''FAILED'', ''FAILED'']
      \<in> {''FAILED'', ''SUCCEEDED'', ''STOPPED''}" by simp
  from poller_returns_first_terminal [OF a b c]
  have "\<exists>t. List.find (\<lambda>v. v \<in> {''FAILED'', ''SUCCEEDED'', ''STOPPED''})
          [''RUNNING'', ''RUNNING'', ''FAILED'', ''FAILED''] = Some t
       \<and> cell_33 (platform_with ''FAILED'') fresh_kernel =
           Some (Completed (fresh_kernel\<lparr>job_run_status := t,
              calls := calls fresh_kernel @ poll_trace (status_query fresh_kernel)
                (takeWhile (\<lambda>v. v \<notin> {''FAILED'', ''SUCCEEDED'', ''STOPPED''})
                   [''RUNNING'', ''RUNNING'', ''FAILED'', ''FAILED''] @ [t])\<rparr>))"
    by (rule conjunct1)
  then show ?thesis
    by (simp add: status_query_def fresh_kernel_def iteration_calls_def)
qed

subsection \<open>A status sequence that never reaches a terminal value\<close>

lemma cell_33_exit_status:
  assumes "cell_33 p w = Some r"
  shows "exits_terminal r"
proof (cases "respond p (status_query w) (queries_issued w)")
  case (Inl e)
  with assms show ?thesis
    by (auto simp: cell_33_def call_then_def invoke_def status_query_def queries_issued_def
        exits_terminal_def)
next
  case (Inr v)
  from assms show ?thesis
    unfolding cell_33_first [OF Inr] by (rule poll_loop_exit_status)
qed

lemma never_terminal_step:
  assumes "never_terminal p w"
  shows "\<exists>v. respond p (status_query w) (queries_issued w) = Inr v
       \<and> v \<notin> {''FAILED'', ''SUCCEEDED'', ''STOPPED''}
       \<and> never_terminal p
           (w\<lparr>job_run_status := v, calls := calls w @ iteration_calls (status_query w) v\<rparr>)
       \<and> never_terminal p
           (w\<lparr>job_run_status := v, calls := calls w @ [status_query w]\<rparr>)"
proof -
  from assms have "\<exists>v. respond p (status_query w) (queries_issued w + 0) = Inr v
         \<and> v \<notin> {''FAILED'', ''SUCCEEDED'', ''STOPPED''}"
    unfolding never_terminal_def by (rule spec)
  then obtain v where a: "respond p (status_query w) (queries_issued w) = Inr v"
    and b: "v \<notin> {''FAILED'', ''SUCCEEDED'', ''STOPPED''}" by auto
  have later: "\<exists>u. respond p (status_query w) (Suc (queries_issued w) + k) = Inr u
         \<and> u \<notin> {''FAILED'', ''SUCCEEDED'', ''STOPPED''}" for k
  proof -
    from assms have "\<exists>u. respond p (status_query w) (queries_issued w + Suc k) = Inr u
         \<and> u \<notin> {''FAILED'', ''SUCCEEDED'', ''STOPPED''}"
      unfolding never_terminal_def by (rule spec)
    then show ?thesis by simp
  qed
  have "never_terminal p
           (w\<lparr>job_run_status := v, calls := calls w @ iteration_calls (status_query w) v\<rparr>)"
    unfolding never_terminal_def using later by simp
  moreover have "never_terminal p
           (w\<lparr>job_run_status := v, calls := calls w @ [status_query w]\<rparr>)"
    unfolding never_terminal_def using later by simp
  ultimately show ?thesis using a b by blast
qed

lemma poll_loop_diverges:
  "poll_loop p w = Some r \<Longrightarrow>
   job_run_status w \<notin> {''FAILED'', ''SUCCEEDED'', ''STOPPED''} \<Longrightarrow>
   never_terminal p w \<Longrightarrow> False"
proof (induct rule: poll_loop.raw_induct [rotated 1, consumes 1])
  case (1 f p w r)
  note IH = "1"(1) and eq = "1"(2) and running = "1"(3) and never = "1"(4)
  from never_terminal_step [OF never] obtain v where
    a: "respond p (status_query w) (queries_issued w) = Inr v"
    and b: "v \<notin> {''FAILED'', ''SUCCEEDED'', ''STOPPED''}"
    and c: "never_terminal p
           (w\<lparr>job_run_status := v, calls := calls w @ iteration_calls (status_query w) v\<rparr>)"
    by blast
  let ?w = "w\<lparr>job_run_status := v, calls := calls w @ iteration_calls (status_query w) v\<rparr>"
  from eq running have d: "f p ?w = Some r"
    by (simp add: poll_body_answer [OF a])
  have e: "job_run_status ?w \<notin> {''FAILED'', ''SUCCEEDED'', ''STOPPED''}"
    using b by simp
  from IH [OF d e c] show ?case .
qed

lemma cell_33_diverges:
  assumes "never_terminal p w"
  shows "cell_33 p w = None"
proof (rule ccontr)
  assume "cell_33 p w \<noteq> None"
  then obtain r where r: "cell_33 p w = Some r" by auto
  from never_terminal_step [OF assms] obtain v where
    a: "respond p (status_query w) (queries_issued w) = Inr v"
    and b: "v \<notin> {''FAILED'', ''SUCCEEDED'', ''STOPPED''}"
    and c: "never_terminal p (w\<lparr>job_run_status := v, calls := calls w @ [status_query w]\<rparr>)"
    by blast
  let ?w = "w\<lparr>job_run_status := v, calls := calls w @ [status_query w]\<rparr>"
  from r have d: "poll_loop p ?w = Some r" by (simp add: cell_33_first [OF a])
  have e: "job_run_status ?w \<notin> {''FAILED'', ''SUCCEEDED'', ''STOPPED''}"
    using b by simp
  from poll_loop_diverges [OF d e c] show False .
qed

subsection \<open>The loop, iteration by iteration\<close>

lemma poll_loop_steps:
  "poll_loop p w =
     (case poll_steps p n w of
        Raised e w' \<Rightarrow> Some (Raised e w')
      | Completed w' \<Rightarrow> poll_loop p w')"
proof (induction n arbitrary: w)
  case 0
  show ?case by simp
next
  case (Suc n)
  show ?case
  proof (cases "job_run_status w \<notin> {''FAILED'', ''SUCCEEDED'', ''STOPPED''}")
    case True
    show ?thesis
    proof (cases "poll_body p w")
      case (Raised e w')
      with True show ?thesis by (subst poll_loop.simps) simp
    next
      case (Completed w')
      have "poll_loop p w = poll_loop p w'"
        using True Completed by (subst poll_loop.simps) simp
      also have "\<dots> = (case poll_steps p n w' of
        Raised e w' \<Rightarrow> Some (Raised e w')
      | Completed w' \<Rightarrow> poll_loop p w')" by (rule Suc.IH)
      finally show ?thesis using True Completed by simp
    qed
  next
    case False
    then show ?thesis by auto
  qed
qed

lemma cell_33_unrolled:
  "cell_33 p w =
     (case cell_33_steps p n w of
        Raised e w' \<Rightarrow> Some (Raised e w')
      | Completed w' \<Rightarrow> poll_loop p w')"
proof (cases "call_then p (GetJobRun (job_name w) (job_run_id w)) w (\<lambda>v w.
             Completed (w\<lparr>job_run_status := v\<rparr>))")
  case (Raised e w')
  then show ?thesis by (simp add: cell_33_def cell_33_steps_def)
next
  case (Completed w')
  then show ?thesis
    using poll_loop_steps [of p w' n] by (simp add: cell_33_def cell_33_steps_def)
qed

lemma poll_steps_running:
  "\<forall>k. respond p (status_query w) (queries_issued w + k) = Inr (s k) \<Longrightarrow>
   \<forall>k. s k \<notin> {''FAILED'', ''SUCCEEDED'', ''STOPPED''} \<Longrightarrow>
   job_run_status w \<notin> {''FAILED'', ''SUCCEEDED'', ''STOPPED''} \<Longrightarrow>
   poll_steps p n w =
     Completed (w\<lparr>job_run_status := (if n = 0 then job_run_status w else s (n - 1)),
        calls := calls w @ concat (map (iteration_calls (status_query w)) (map s [0..<n]))\<rparr>)"
proof (induction n arbitrary: w s)
  case 0
  show ?case by simp
next
  case (Suc n)
  let ?w = "w\<lparr>job_run_status := s 0, calls := calls w @ iteration_calls (status_query w) (s 0)\<rparr>"
  from Suc.prems(1) have "respond p (status_query w) (queries_issued w + 0) = Inr (s 0)"
    by (rule spec)
  then have a: "respond p (status_query w) (queries_issued w) = Inr (s 0)" by simp
  have b: "\<forall>k. respond p (status_query ?w) (queries_issued ?w + k) = Inr ((s \<circ> Suc) k)"
  proof
    fix k
    from Suc.prems(1) have "respond p (status_query w) (queries_issued w + Suc k) = Inr (s (Suc k))"
      by (rule spec)
    then show "respond p (status_query ?w) (queries_issued ?w + k) = Inr ((s \<circ> Suc) k)"
      by simp
  qed
  have c: "\<forall>k. (s \<circ> Suc) k \<notin> {''FAILED'', ''SUCCEEDED'', ''STOPPED''}"
    using Suc.prems(2) by simp
  have d: "job_run_status ?w \<notin> {''FAILED'', ''SUCCEEDED'', ''STOPPED''}"
    using Suc.prems(2) by simp
  have e: "map s [0..<Suc n] = s 0 # map (s \<circ> Suc) [0..<n]"
    by (simp add: upt_conv_Cons map_Suc_upt [symmetric] del: upt_Suc)
  have f: "(if n = 0 then s 0 else (s \<circ> Suc) (n - 1)) = s n"
    by (cases n) simp_all
  have "poll_steps p (Suc n) w = poll_steps p n ?w"
    using Suc.prems(3) by (simp add: poll_body_answer [OF a])
  also have "\<dots> = Completed (?w\<lparr>job_run_status := (if n = 0 then job_run_status ?w else (s \<circ> Suc) (n - 1)),
        calls := calls ?w @ concat (map (iteration_calls (status_query ?w)) (map (s \<circ> Suc) [0..<n]))\<rparr>)"
    by (rule Suc.IH [OF b c d])
  also have "\<dots> = Completed (w\<lparr>job_run_status := s n,
        calls := calls w @ concat (map (iteration_calls (status_query w)) (map s [0..<Suc n]))\<rparr>)"
    unfolding e using f by simp
  finally show ?case by simp
qed

lemma cell_33_steps_running:
  assumes "\<forall>k. respond p (status_query w) (queries_issued w + k) = Inr (s k)"
    and "\<forall>k. s k \<notin> {''FAILED'', ''SUCCEEDED'', ''STOPPED''}"
  shows "cell_33_steps p n w =
     Completed (w\<lparr>job_run_status := s n,
        calls := calls w @ poll_trace (status_query w) (map s [0..<Suc n])\<rparr>)"
proof -
  let ?w = "w\<lparr>job_run_status := s 0, calls := calls w @ [status_query w]\<rparr>"
  from assms(1) have "respond p (status_query w) (queries_issued w + 0) = Inr (s 0)"
    by (rule spec)
  then have a: "respond p (status_query w) (queries_issued w) = Inr (s 0)" by simp
  have b: "\<forall>k. respond p (status_query ?w) (queries_issued ?w + k) = Inr ((s \<circ> Suc) k)"
  proof
    fix k
    from assms(1) have "respond p (status_query w) (queries_issued w + Suc k) = Inr (s (Suc k))"
      by (rule spec)
    then show "respond p (status_query ?w) (queries_issued ?w + k) = Inr ((s \<circ> Suc) k)"
      by simp
  qed
  have c: "\<forall>k. (s \<circ> Suc) k \<notin> {''FAILED'', ''SUCCEEDED'', ''STOPPED''}"
    using assms(2) by simp
  have d: "job_run_status ?w \<notin> {''FAILED'', ''SUCCEEDED'', ''STOPPED''}"
    using assms(2) by simp
  have e: "map s [0..<Suc n] = s 0 # map (s \<circ> Suc) [0..<n]"
    by (simp add: upt_conv_Cons map_Suc_upt [symmetric] del: upt_Suc)
  have f: "(if n = 0 then s 0 else (s \<circ> Suc) (n - 1)) = s n"
    by (cases n) simp_all
  show ?thesis
    unfolding cell_33_steps_first [OF a] poll_steps_running [OF b c d] e
    using f by simp
qed

lemma count_poll_trace:
  "count_list (poll_trace (GetJobRun j r) vs) (GetJobRun j r) = length vs"
proof (cases vs)
  case Nil
  then show ?thesis by simp
next
  case (Cons v us)
  have "count_list (concat (map (iteration_calls (GetJobRun j r)) us)) (GetJobRun j r) = length us"
    by (induction us) (auto simp: iteration_calls_def)
  with Cons show ?thesis by simp
qed

lemma sleeps_poll_trace:
  "sleeps (poll_trace (GetJobRun j r) vs) = replicate (length vs - 1) 30"
proof (cases vs)
  case Nil
  then show ?thesis by (simp add: sleeps_def)
next
  case (Cons v us)
  have "sleeps (concat (map (iteration_calls (GetJobRun j r)) us)) = replicate (length us) 30"
    by (induction us) (auto simp: iteration_calls_def sleeps_def)
  with Cons show ?thesis by (simp add: sleeps_def)
qed

text \<open>
  \<^bold>\<open>C2.\<close> Let the platform answer every status query with a value \<open>s k\<close> outside
  \<^verbatim>\<open>FAILED\<close>, \<^verbatim>\<open>SUCCEEDED\<close>, \<^verbatim>\<open>STOPPED\<close>. Then cell 33 never returns. After any
  number \<open>n\<close> of iterations the loop is still running: it stands in a state whose status
  is the non-terminal \<open>s n\<close>, it has issued \<open>n + 1\<close> queries, one before the loop and
  one in each iteration, and it has slept \<open>n\<close> times, 30 seconds each time; no bound on
  \<open>n\<close> and no other exit exists. That state is a state of the run of cell 33 itself:
  on every platform and from every state, the run of the cell is the run of its loop
  continued from the state reached after \<open>n\<close> iterations (or the exception raised on
  the way), and so is the run of the loop. And on any platform, a run of the cell that
  ends without an exception ends holding one of the three terminal values.
\<close>

theorem poller_never_returns:
  assumes "\<forall>k. respond p (status_query w) (queries_issued w + k) = Inr (s k)"
    and "\<forall>k. s k \<notin> {''FAILED'', ''SUCCEEDED'', ''STOPPED''}"
  shows "cell_33 p w = None
     \<and> (\<forall>n. cell_33_steps p n w =
            Completed (w\<lparr>job_run_status := s n,
              calls := calls w @ poll_trace (status_query w) (map s [0..<Suc n])\<rparr>)
          \<and> s n \<notin> {''FAILED'', ''SUCCEEDED'', ''STOPPED''}
          \<and> count_list (poll_trace (status_query w) (map s [0..<Suc n])) (status_query w) = Suc n
          \<and> sleeps (poll_trace (status_query w) (map s [0..<Suc n])) = replicate n 30)
     \<and> (\<forall>p' w' n. cell_33 p' w' =
            (case cell_33_steps p' n w' of
               Raised e v \<Rightarrow> Some (Raised e v)
             | Completed v \<Rightarrow> poll_loop p' v))
     \<and> (\<forall>p' w' n. poll_loop p' w' =
            (case poll_steps p' n w' of
               Raised e v \<Rightarrow> Some (Raised e v)
             | Completed v \<Rightarrow> poll_loop p' v))
     \<and> (\<forall>p' w' r. cell_33 p' w' = Some r \<longrightarrow> exits_terminal r)"
proof -
  have "never_terminal p w"
    unfolding never_terminal_def using assms by simp
  then have diverges: "cell_33 p w = None" by (rule cell_33_diverges)
  have state: "cell_33_steps p n w =
            Completed (w\<lparr>job_run_status := s n,
              calls := calls w @ poll_trace (status_query w) (map s [0..<Suc n])\<rparr>)" for n
    by (rule cell_33_steps_running [OF assms])
  have running: "s n \<notin> {''FAILED'', ''SUCCEEDED'', ''STOPPED''}" for n
    using assms(2) by (rule spec)
  have queries: "count_list (poll_trace (status_query w) (map s [0..<Suc n])) (status_query w) = Suc n" for n
    unfolding status_query_def count_poll_trace by simp
  have naps: "sleeps (poll_trace (status_query w) (map s [0..<Suc n])) = replicate n 30" for n
    unfolding status_query_def sleeps_poll_trace by simp
  have exits: "\<forall>p' w' r. cell_33 p' w' = Some r \<longrightarrow> exits_terminal r"
    using cell_33_exit_status by blast
  show ?thesis
  proof (intro conjI allI)
    show "cell_33 p w = None" by (rule diverges)
  next
    fix n show "cell_33_steps p n w =
            Completed (w\<lparr>job_run_status := s n,
              calls := calls w @ poll_trace (status_query w) (map s [0..<Suc n])\<rparr>)"
      by (rule state)
  next
    fix n show "s n \<notin> {''FAILED'', ''SUCCEEDED'', ''STOPPED''}" by (rule running)
  next
    fix n show "count_list (poll_trace (status_query w) (map s [0..<Suc n])) (status_query w) = Suc n"
      by (rule queries)
  next
    fix n show "sleeps (poll_trace (status_query w) (map s [0..<Suc n])) = replicate n 30"
      by (rule naps)
  next
    fix p' w' n show "cell_33 p' w' =
            (case cell_33_steps p' n w' of
               Raised e v \<Rightarrow> Some (Raised e v)
             | Completed v \<Rightarrow> poll_loop p' v)"
      by (rule cell_33_unrolled)
  next
    fix p' w' n show "poll_loop p' w' =
            (case poll_steps p' n w' of
               Raised e v \<Rightarrow> Some (Raised e v)
             | Completed v \<Rightarrow> poll_loop p' v)"
      by (rule poll_loop_steps)
  next
    fix p' w' r show "cell_33 p' w' = Some r \<longrightarrow> exits_terminal r"
      using exits by (elim allE)
  qed
qed

theorem poller_never_returns_witness:
  "cell_33 (platform_with ''TIMEOUT'') fresh_kernel = None
   \<and> cell_33_steps (platform_with ''TIMEOUT'') 2 fresh_kernel =
       Completed (fresh_kernel\<lparr>job_run_status := ''TIMEOUT'',
         calls := [GetJobRun [] [],
                   GetJobRun [] [], Print ''RUNNING'', Sleep 30,
                   GetJobRun [] [], Print ''TIMEOUT'', Sleep 30]\<rparr>)
   \<and> poll_loop (platform_with ''TIMEOUT'')
       (fresh_kernel\<lparr>job_run_status := ''TIMEOUT'',
         calls := [GetJobRun [] [],
                   GetJobRun [] [], Print ''RUNNING'', Sleep 30,
                   GetJobRun [] [], Print ''TIMEOUT'', Sleep 30]\<rparr>) = None"
proof -
  let ?s = "\<lambda>k::nat. if k < 2 then ''RUNNING'' else ''TIMEOUT''"
  have a: "\<forall>k. respond (platform_with ''TIMEOUT'') (status_query fresh_kernel)
      (queries_issued fresh_kernel + k) = Inr (?s k)"
    by (simp add: platform_with_def status_query_def queries_issued_def fresh_kernel_def)
  have b: "\<forall>k. ?s k \<notin> {''FAILED'', ''SUCCEEDED'', ''STOPPED''}" by simp
  have c: "[0..<Suc 2] = [0, 1, 2]" by (simp add: upt_rec)
  from poller_never_returns [OF a b] have d:
    "cell_33 (platform_with ''TIMEOUT'') fresh_kernel = None"
    and e: "cell_33_steps (platform_with ''TIMEOUT'') 2 fresh_kernel =
      Completed (fresh_kernel\<lparr>job_run_status := ?s 2,
        calls := calls fresh_kernel @ poll_trace (status_query fresh_kernel) (map ?s [0..<Suc 2])\<rparr>)"
    and f: "cell_33 (platform_with ''TIMEOUT'') fresh_kernel =
      (case cell_33_steps (platform_with ''TIMEOUT'') 2 fresh_kernel of
         Raised e v \<Rightarrow> Some (Raised e v)
       | Completed v \<Rightarrow> poll_loop (platform_with ''TIMEOUT'') v)"
    by blast+
  from f have "poll_loop (platform_with ''TIMEOUT'')
      (fresh_kernel\<lparr>job_run_status := ?s 2,
        calls := calls fresh_kernel @ poll_trace (status_query fresh_kernel) (map ?s [0..<Suc 2])\<rparr>)
      = None"
    unfolding d e by simp
  with d e show ?thesis
    unfolding c by (simp add: status_query_def fresh_kernel_def iteration_calls_def)
qed

section \<open>The bucket-creation step\<close>

lemma create_bucket_step_returns:
  "respond p (CreateBucket (default_bucket w) (location_constraint p))
     (count_list (calls w) (CreateBucket (default_bucket w) (location_constraint p))) = Inr v \<Longrightarrow>
   create_bucket_step p w =
     Completed (w\<lparr>calls := calls w @ [CreateBucket (default_bucket w) (location_constraint p)]\<rparr>)"
  by (cases "region_name p = ''us-east-1''")
    (simp_all add: create_bucket_step_def location_constraint_def invoke_def Let_def)

lemma create_bucket_step_owned:
  "respond p (CreateBucket (default_bucket w) (location_constraint p))
     (count_list (calls w) (CreateBucket (default_bucket w) (location_constraint p)))
     = Inl (ClientError ''BucketAlreadyOwnedByYou'' message) \<Longrightarrow>
   create_bucket_step p w =
     Completed (w\<lparr>calls := calls w @ [CreateBucket (default_bucket w) (location_constraint p),
       Print ''A bucket with the same name already exists in your account - using the same bucket.'']\<rparr>)"
  by (cases "region_name p = ''us-east-1''")
    (simp_all add: create_bucket_step_def location_constraint_def invoke_def effect_def Let_def)

lemma create_bucket_step_other_code:
  "respond p (CreateBucket (default_bucket w) (location_constraint p))
     (count_list (calls w) (CreateBucket (default_bucket w) (location_constraint p)))
     = Inl (ClientError error_code message) \<Longrightarrow>
   error_code \<noteq> ''BucketAlreadyOwnedByYou'' \<Longrightarrow>
   create_bucket_step p w =
     Completed (w\<lparr>calls := calls w @ [CreateBucket (default_bucket w) (location_constraint p)]\<rparr>)"
  by (cases "region_name p = ''us-east-1''")
    (simp_all add: create_bucket_step_def location_constraint_def invoke_def Let_def)

lemma cell_14_account:
  "respond p GetCallerIdentity (count_list (calls w) GetCallerIdentity) = Inr account \<Longrightarrow>
   cell_14 p w =
     and_then
       (create_bucket_step p
          (w\<lparr>calls := calls w @ [GetCallerIdentity],
             default_bucket := ''aws-glue-'' @ account @ ''-'' @ region_name p\<rparr>))
       (upload_dataset p)"
  by (simp add: cell_14_def call_then_def invoke_def)

lemma respond_bucket_created [simp]:
  "respond (bucket_created p) (CreateBucket b l) n = Inr []"
  "respond (bucket_created p) GetCallerIdentity n = respond p GetCallerIdentity n"
  "respond (bucket_created p) (UploadData f b k) n = respond p (UploadData f b k) n"
  "region_name (bucket_created p) = region_name p"
  "location_constraint (bucket_created p) = location_constraint p"
  by (simp_all add: bucket_created_def location_constraint_def)

lemma upload_dataset_bucket_created:
  "upload_dataset (bucket_created p) w = upload_dataset p w"
  by (simp add: upload_dataset_def call_then_def invoke_def)

lemma upload_dataset_after_print:
  "without_prints (upload_dataset p (w\<lparr>calls := cs @ [Print s]\<rparr>))
     = without_prints (upload_dataset p (w\<lparr>calls := cs\<rparr>))"
  by (simp add: upload_dataset_def call_then_def invoke_def without_prints_def is_print_def
      split: sum.splits)

text \<open>
  \<^bold>\<open>C4.\<close> Let \<^verbatim>\<open>create_bucket\<close> raise a \<open>ClientError\<close> with the code
  \<^verbatim>\<open>BucketAlreadyOwnedByYou\<close>. Then the exception does not leave the \<^verbatim>\<open>try\<close> block:
  cell 14 prints its message and goes on to upload \<^verbatim>\<open>train.csv\<close> and \<^verbatim>\<open>test.csv\<close>
  to the bucket it asked for. On the platform that differs only in that the creation
  returns, the cell goes on to the same uploads, and the two outcomes are equal but for
  the message printed.
\<close>

theorem bucket_already_owned_is_tolerated:
  assumes "respond p GetCallerIdentity (count_list (calls w) GetCallerIdentity) = Inr account"
    and "b = ''aws-glue-'' @ account @ ''-'' @ region_name p"
    and "respond p (CreateBucket b (location_constraint p))
           (count_list (calls w) (CreateBucket b (location_constraint p)))
         = Inl (ClientError ''BucketAlreadyOwnedByYou'' message)"
  shows "cell_14 p w =
           upload_dataset p
             (w\<lparr>default_bucket := b,
                calls := calls w @ [GetCallerIdentity, CreateBucket b (location_constraint p),
                  Print ''A bucket with the same name already exists in your account - using the same bucket.'']\<rparr>)
     \<and> cell_14 (bucket_created p) w =
           upload_dataset p
             (w\<lparr>default_bucket := b,
                calls := calls w @ [GetCallerIdentity, CreateBucket b (location_constraint p)]\<rparr>)
     \<and> without_prints (cell_14 p w) = without_prints (cell_14 (bucket_created p) w)"
proof -
  let ?w = "w\<lparr>calls := calls w @ [GetCallerIdentity], default_bucket := b\<rparr>"
  have owned: "respond p (CreateBucket (default_bucket ?w) (location_constraint p))
     (count_list (calls ?w) (CreateBucket (default_bucket ?w) (location_constraint p)))
     = Inl (ClientError ''BucketAlreadyOwnedByYou'' message)"
    using assms(3) by simp
  have fresh: "respond (bucket_created p)
     (CreateBucket (default_bucket ?w) (location_constraint (bucket_created p)))
     (count_list (calls ?w)
        (CreateBucket (default_bucket ?w) (location_constraint (bucket_created p)))) = Inr []"
    by simp
  have acct: "respond (bucket_created p) GetCallerIdentity
      (count_list (calls w) GetCallerIdentity) = Inr account"
    using assms(1) by simp
  have one: "cell_14 p w =
           upload_dataset p
             (w\<lparr>default_bucket := b,
                calls := calls w @ [GetCallerIdentity, CreateBucket b (location_constraint p),
                  Print ''A bucket with the same name already exists in your account - using the same bucket.'']\<rparr>)"
    unfolding cell_14_account [OF assms(1)] assms(2) [symmetric]
      create_bucket_step_owned [OF owned]
    by (simp add: and_then_def)
  have two: "cell_14 (bucket_created p) w =
           upload_dataset p
             (w\<lparr>default_bucket := b,
                calls := calls w @ [GetCallerIdentity, CreateBucket b (location_constraint p)]\<rparr>)"
    unfolding cell_14_account [OF acct] respond_bucket_created assms(2) [symmetric]
      create_bucket_step_returns [OF fresh]
    by (simp add: and_then_def upload_dataset_bucket_created)
  have "without_prints (cell_14 p w) = without_prints (cell_14 (bucket_created p) w)"
    unfolding one two
    using upload_dataset_after_print
      [where p = p and w = "w\<lparr>default_bucket := b\<rparr>"
         and cs = "calls w @ [GetCallerIdentity, CreateBucket b (location_constraint p)]"]
    by simp
  with one two show ?thesis by blast
qed

theorem bucket_already_owned_is_tolerated_witness:
  "cell_14 (platform_refusing ''BucketAlreadyOwnedByYou'') fresh_kernel =
     Completed (fresh_kernel\<lparr>
       default_bucket := ''aws-glue-123456789012-eu-west-1'',
       calls := [GetCallerIdentity,
         CreateBucket ''aws-glue-123456789012-eu-west-1'' (Some ''eu-west-1''),
         Print ''A bucket with the same name already exists in your account - using the same bucket.'',
         UploadData ''train.csv'' ''aws-glue-123456789012-eu-west-1'' ''input/dbpedia'',
         UploadData ''test.csv'' ''aws-glue-123456789012-eu-west-1'' ''input/dbpedia'']\<rparr>)"
proof -
  let ?p = "platform_refusing ''BucketAlreadyOwnedByYou''"
  have a: "respond ?p GetCallerIdentity (count_list (calls fresh_kernel) GetCallerIdentity)
      = Inr ''123456789012''"
    by (simp add: platform_refusing_def)
  have b: "''aws-glue-123456789012-eu-west-1'' = ''aws-glue-'' @ ''123456789012'' @ ''-'' @ region_name ?p"
    by (simp add: platform_refusing_def)
  have c: "respond ?p (CreateBucket ''aws-glue-123456789012-eu-west-1'' (location_constraint ?p))
           (count_list (calls fresh_kernel)
              (CreateBucket ''aws-glue-123456789012-eu-west-1'' (location_constraint ?p)))
         = Inl (ClientError ''BucketAlreadyOwnedByYou'' ''refused'')"
    by (simp add: platform_refusing_def)
  from bucket_already_owned_is_tolerated [OF a b c] show ?thesis
    by (simp add: upload_dataset_def call_then_def invoke_def platform_refusing_def
        location_constraint_def fresh_kernel_def)
qed

text \<open>
  \<^bold>\<open>C9.\<close> The handler catches a \<open>ClientError\<close> of every code. Let
  \<^verbatim>\<open>create_bucket\<close> raise one: the \<^verbatim>\<open>try\<close> block completes, whatever the code. When
  the code is not \<^verbatim>\<open>BucketAlreadyOwnedByYou\<close>, nothing is printed, and cell 14 goes on
  to upload into the bucket it asked for exactly as it does when the bucket was created:
  the outcome of the cell is the outcome on the platform where the creation returns.
\<close>

theorem every_client_error_is_suppressed:
  assumes "respond p GetCallerIdentity (count_list (calls w) GetCallerIdentity) = Inr account"
    and "b = ''aws-glue-'' @ account @ ''-'' @ region_name p"
    and "respond p (CreateBucket b (location_constraint p))
           (count_list (calls w) (CreateBucket b (location_constraint p)))
         = Inl (ClientError error_code message)"
  shows "(\<exists>w'. create_bucket_step p
              (w\<lparr>calls := calls w @ [GetCallerIdentity], default_bucket := b\<rparr>) = Completed w')
     \<and> (error_code \<noteq> ''BucketAlreadyOwnedByYou'' \<longrightarrow>
          cell_14 p w =
            upload_dataset p
              (w\<lparr>default_bucket := b,
                 calls := calls w @ [GetCallerIdentity, CreateBucket b (location_constraint p)]\<rparr>)
          \<and> cell_14 p w = cell_14 (bucket_created p) w)"
proof -
  let ?w = "w\<lparr>calls := calls w @ [GetCallerIdentity], default_bucket := b\<rparr>"
  have raised: "respond p (CreateBucket (default_bucket ?w) (location_constraint p))
     (count_list (calls ?w) (CreateBucket (default_bucket ?w) (location_constraint p)))
     = Inl (ClientError error_code message)"
    using assms(3) by simp
  have fresh: "respond (bucket_created p)
     (CreateBucket (default_bucket ?w) (location_constraint (bucket_created p)))
     (count_list (calls ?w)
        (CreateBucket (default_bucket ?w) (location_constraint (bucket_created p)))) = Inr []"
    by simp
  have acct: "respond (bucket_created p) GetCallerIdentity
      (count_list (calls w) GetCallerIdentity) = Inr account"
    using assms(1) by simp
  have caught: "\<exists>w'. create_bucket_step p ?w = Completed w'"
  proof (cases "error_code = ''BucketAlreadyOwnedByYou''")
    case True
    with raised show ?thesis by (simp add: create_bucket_step_owned)
  next
    case False
    with raised show ?thesis by (simp add: create_bucket_step_other_code)
  qed
  have two: "cell_14 (bucket_created p) w =
           upload_dataset p
             (w\<lparr>default_bucket := b,
                calls := calls w @ [GetCallerIdentity, CreateBucket b (location_constraint p)]\<rparr>)"
    unfolding cell_14_account [OF acct] respond_bucket_created assms(2) [symmetric]
      create_bucket_step_returns [OF fresh]
    by (simp add: and_then_def upload_dataset_bucket_created)
  have one: "cell_14 p w =
            upload_dataset p
              (w\<lparr>default_bucket := b,
                 calls := calls w @ [GetCallerIdentity, CreateBucket b (location_constraint p)]\<rparr>)"
    if "error_code \<noteq> ''BucketAlreadyOwnedByYou''"
    unfolding cell_14_account [OF assms(1)] assms(2) [symmetric]
      create_bucket_step_other_code [OF raised that]
    by (simp add: and_then_def)
  from caught one two show ?thesis by simp
qed

theorem every_client_error_is_suppressed_witness:
  "cell_14 (platform_refusing ''AccessDenied'') fresh_kernel =
     Completed (fresh_kernel\<lparr>
       default_bucket := ''aws-glue-123456789012-eu-west-1'',
       calls := [GetCallerIdentity,
         CreateBucket ''aws-glue-123456789012-eu-west-1'' (Some ''eu-west-1''),
         UploadData ''train.csv'' ''aws-glue-123456789012-eu-west-1'' ''input/dbpedia'',
         UploadData ''test.csv'' ''aws-glue-123456789012-eu-west-1'' ''input/dbpedia'']\<rparr>)"
proof -
  let ?p = "platform_refusing ''AccessDenied''"
  have a: "respond ?p GetCallerIdentity (count_list (calls fresh_kernel) GetCallerIdentity)
      = Inr ''123456789012''"
    by (simp add: platform_refusing_def)
  have b: "''aws-glue-123456789012-eu-west-1'' = ''aws-glue-'' @ ''123456789012'' @ ''-'' @ region_name ?p"
    by (simp add: platform_refusing_def)
  have c: "respond ?p (CreateBucket ''aws-glue-123456789012-eu-west-1'' (location_constraint ?p))
           (count_list (calls fresh_kernel)
              (CreateBucket ''aws-glue-123456789012-eu-west-1'' (location_constraint ?p)))
         = Inl (ClientError ''AccessDenied'' ''refused'')"
    by (simp add: platform_refusing_def)
  from every_client_error_is_suppressed [OF a b c] show ?thesis
    by (simp add: upload_dataset_def call_then_def invoke_def platform_refusing_def
        location_constraint_def fresh_kernel_def)
qed

section \<open>The state between the cells\<close>

subsection \<open>The log, kind by kind\<close>

lemma clock_reads_simps [simp]:
  "clock_reads [] = []"
  "clock_reads (cs @ ds) = clock_reads cs @ clock_reads ds"
  "clock_reads (c # cs) = (case c of Strftime f \<Rightarrow> [f] | _ \<Rightarrow> []) @ clock_reads cs"
  by (simp_all add: clock_reads_def)

lemma job_runs_started_simps [simp]:
  "job_runs_started [] = []"
  "job_runs_started (cs @ ds) = job_runs_started cs @ job_runs_started ds"
  "job_runs_started (c # cs) =
     (case c of StartJobRun n a \<Rightarrow> [(n, a)] | _ \<Rightarrow> []) @ job_runs_started cs"
  by (simp_all add: job_runs_started_def)

lemma trainings_simps [simp]:
  "trainings [] = []"
  "trainings (cs @ ds) = trainings cs @ trainings ds"
  "trainings (c # cs) = (case c of Fit e d \<Rightarrow> [(e, d)] | _ \<Rightarrow> []) @ trainings cs"
  by (simp_all add: trainings_def)

lemma artifact_reads_simps [simp]:
  "artifact_reads [] = []"
  "artifact_reads (cs @ ds) = artifact_reads cs @ artifact_reads ds"
  "artifact_reads (c # cs) = (case c of ModelData e \<Rightarrow> [e] | _ \<Rightarrow> []) @ artifact_reads cs"
  by (simp_all add: artifact_reads_def)

lemma deployments_simps [simp]:
  "deployments [] = []"
  "deployments (cs @ ds) = deployments cs @ deployments ds"
  "deployments (c # cs) = (case c of Deploy m n t e \<Rightarrow> [(m, e)] | _ \<Rightarrow> []) @ deployments cs"
  by (simp_all add: deployments_def)

lemma predictions_simps [simp]:
  "predictions [] = []"
  "predictions (cs @ ds) = predictions cs @ predictions ds"
  "predictions (c # cs) = (case c of Predict e t a b \<Rightarrow> [e] | _ \<Rightarrow> []) @ predictions cs"
  by (simp_all add: predictions_def)

lemma transforms_simps [simp]:
  "transforms [] = []"
  "transforms (cs @ ds) = transforms cs @ transforms ds"
  "transforms (c # cs) =
     (case c of Transform t d ct st \<Rightarrow> [(t, d, ct, st)] | _ \<Rightarrow> []) @ transforms cs"
  by (simp_all add: transforms_def)

lemma no_clock_read_count:
  "clock_reads cs = [] \<Longrightarrow> count_list cs (Strftime f) = 0"
  by (induction cs) (auto split: call.splits)

lemma no_artifact_read_count:
  "artifact_reads cs = [] \<Longrightarrow> count_list cs (ModelData e) = 0"
  by (induction cs) (auto split: call.splits)

lemma poll_calls_of_no_other_kind:
  assumes "list_all is_poll_call cs"
  shows "clock_reads cs = []" and "job_runs_started cs = []" and "trainings cs = []"
    and "artifact_reads cs = []" and "deployments cs = []" and "predictions cs = []" and "transforms cs = []"
  using assms by (induction cs; simp add: is_poll_call_def split: call.splits)+

subsection \<open>What cell 33 leaves unchanged\<close>

lemma poll_loop_frame:
  "poll_loop p w = Some (Completed w') \<Longrightarrow>
   \<exists>v cs. w' = w\<lparr>job_run_status := v, calls := calls w @ cs\<rparr> \<and> list_all is_poll_call cs"
proof (induct p w "Completed w'" rule: poll_loop.raw_induct [rotated 1, consumes 1])
  case (1 f p w)
  note IH = "1"(1) and eq = "1"(2)
  show ?case
  proof (cases "job_run_status w \<notin> {''FAILED'', ''SUCCEEDED'', ''STOPPED''}")
    case True
    show ?thesis
    proof (cases "poll_body p w")
      case (Raised e w1)
      with eq True show ?thesis by simp
    next
      case (Completed w1)
      from poll_body_Completed [OF Completed] obtain u where
        w1: "w1 = w\<lparr>job_run_status := u, calls := calls w @ iteration_calls (status_query w) u\<rparr>"
        by blast
      from eq True Completed have "f p w1 = Some (Completed w')" by simp
      from IH [OF this] obtain v cs where
        w': "w' = w1\<lparr>job_run_status := v, calls := calls w1 @ cs\<rparr>"
        and cs: "list_all is_poll_call cs" by blast
      have "w' = w\<lparr>job_run_status := v,
          calls := calls w @ (iteration_calls (status_query w) u @ cs)\<rparr>"
        unfolding w' w1 by simp
      moreover have "list_all is_poll_call (iteration_calls (status_query w) u @ cs)"
        using cs by (simp add: iteration_calls_def status_query_def is_poll_call_def)
      ultimately show ?thesis by blast
    qed
  next
    case False
    with eq have "w' = w" by auto
    then have "w' = w\<lparr>job_run_status := job_run_status w, calls := calls w @ []\<rparr>
        \<and> list_all is_poll_call []"
      by simp
    then show ?thesis by blast
  qed
qed

lemma cell_33_frame:
  assumes "cell_33 p w = Some (Completed w')"
  shows "\<exists>v cs. w' = w\<lparr>job_run_status := v, calls := calls w @ cs\<rparr> \<and> list_all is_poll_call cs"
proof (cases "respond p (status_query w) (queries_issued w)")
  case (Inl e)
  with assms show ?thesis
    by (simp add: cell_33_def call_then_def invoke_def status_query_def queries_issued_def)
next
  case (Inr u)
  let ?w = "w\<lparr>job_run_status := u, calls := calls w @ [status_query w]\<rparr>"
  from assms have "poll_loop p ?w = Some (Completed w')"
    by (simp add: cell_33_first [OF Inr])
  from poll_loop_frame [OF this] obtain v cs where
    w': "w' = ?w\<lparr>job_run_status := v, calls := calls ?w @ cs\<rparr>"
    and cs: "list_all is_poll_call cs" by blast
  have "w' = w\<lparr>job_run_status := v, calls := calls w @ (status_query w # cs)\<rparr>"
    unfolding w' by simp
  moreover have "list_all is_poll_call (status_query w # cs)"
    using cs by (simp add: status_query_def is_poll_call_def)
  ultimately show ?thesis by blast
qed

subsection \<open>Cell by cell\<close>

lemma step_cell_8:
  "stage_inv p 0 w \<Longrightarrow> cell_8 p w = Completed w' \<Longrightarrow> stage_inv p 1 w'"
  by (clarsimp simp: stage_inv_def cell_8_def call_then_def invoke_def effect_def
      split: sum.splits)

lemma step_cell_14:
  "stage_inv p 1 w \<Longrightarrow> cell_14 p w = Completed w' \<Longrightarrow> stage_inv p 2 w'"
  by (clarsimp simp: stage_inv_def cell_14_def create_bucket_step_def upload_dataset_def
      and_then_def call_then_def invoke_def effect_def Let_def
      split: sum.splits exn.splits if_splits)

lemma step_cell_19:
  "stage_inv p 2 w \<Longrightarrow> cell_19 p w = Completed w' \<Longrightarrow> stage_inv p 3 w'"
  by (clarsimp simp: stage_inv_def cell_19_def call_then_def invoke_def split: sum.splits)

lemma step_cell_23:
  "stage_inv p 3 w \<Longrightarrow> cell_23 p w = Completed w' \<Longrightarrow> stage_inv p 4 w'"
  by (clarsimp simp: stage_inv_def cell_23_def call_then_def invoke_def split: sum.splits)

lemma step_cell_25:
  "stage_inv p 4 w \<Longrightarrow> cell_25 p w = Completed w' \<Longrightarrow> stage_inv p 5 w'"
  by (clarsimp simp: stage_inv_def cell_25_def call_then_def invoke_def Let_def
      no_clock_read_count split: sum.splits)

lemma step_cell_28:
  "stage_inv p 5 w \<Longrightarrow> cell_28 p w = Completed w' \<Longrightarrow> stage_inv p 6 w'"
  by (clarsimp simp: stage_inv_def cell_28_def call_then_def invoke_def effect_def Let_def
      split: sum.splits)

lemma step_cell_30:
  "stage_inv p 6 w \<Longrightarrow> cell_30 p w = Completed w' \<Longrightarrow> stage_inv p 7 w'"
  by (clarsimp simp: stage_inv_def cell_30_def call_then_def invoke_def effect_def
      split: sum.splits)

lemma step_cell_33:
  assumes "stage_inv p 7 w" and "cell_33 p w = Some (Completed w')"
  shows "stage_inv p 8 w'"
proof -
  from cell_33_frame [OF assms(2)] obtain v cs where
    w': "w' = w\<lparr>job_run_status := v, calls := calls w @ cs\<rparr>"
    and cs: "list_all is_poll_call cs" by blast
  from assms(1) show ?thesis
    unfolding w' by (simp add: stage_inv_def poll_calls_of_no_other_kind [OF cs])
qed

lemma step_cell_37:
  "stage_inv p 8 w \<Longrightarrow> cell_37 p w = Completed w' \<Longrightarrow> stage_inv p 9 w'"
  by (clarsimp simp: stage_inv_def cell_37_def call_then_def invoke_def effect_def
      split: sum.splits)

lemma step_cell_39:
  "stage_inv p 9 w \<Longrightarrow> cell_39 p w = Completed w' \<Longrightarrow> stage_inv p 10 w'"
  by (clarsimp simp: stage_inv_def cell_39_def Let_def)

lemma step_cell_41:
  "stage_inv p 10 w \<Longrightarrow> cell_41 p w = Completed w' \<Longrightarrow> stage_inv p 11 w'"
  by (clarsimp simp: stage_inv_def cell_41_def call_then_def invoke_def split: sum.splits)

lemma step_cell_46:
  "stage_inv p 11 w \<Longrightarrow> cell_46 p w = Completed w' \<Longrightarrow> stage_inv p 12 w'"
  by (clarsimp simp: stage_inv_def cell_46_def effect_def Let_def simp del: json_dumps.simps)

lemma step_cell_49:
  "stage_inv p 12 w \<Longrightarrow> cell_49 p w = Completed w' \<Longrightarrow> stage_inv p 13 w'"
  by (clarsimp simp: stage_inv_def cell_49_def call_then_def invoke_def Let_def
      no_artifact_read_count simp del: json_dumps.simps split: sum.splits)

lemma step_cell_51:
  "stage_inv p 13 w \<Longrightarrow> cell_51 p w = Completed w' \<Longrightarrow> stage_inv p 14 w'"
  by (clarsimp simp: stage_inv_def cell_51_def call_then_def invoke_def Let_def
      simp del: json_dumps.simps split: sum.splits)

lemma step_cell_54:
  "stage_inv p 14 w \<Longrightarrow> cell_54 p w = Completed w' \<Longrightarrow> stage_inv p 15 w'"
  by (clarsimp simp: stage_inv_def cell_54_def call_then_def invoke_def effect_def Let_def
      simp del: json_dumps.simps split: sum.splits)

lemma step_cell_56:
  "stage_inv p 15 w \<Longrightarrow> cell_56 p w = Completed w' \<Longrightarrow> stage_inv p 16 w'"
  by (clarsimp simp: stage_inv_def cell_56_def call_then_def invoke_def effect_def Let_def
      simp del: json_dumps.simps split: sum.splits)

lemma step_cell_58:
  "stage_inv p 16 w \<Longrightarrow> cell_58 p w = Completed w' \<Longrightarrow> stage_inv p 17 w'"
  by (clarsimp simp: stage_inv_def cell_58_def call_then_def invoke_def
      simp del: json_dumps.simps split: sum.splits)

lemma step_cell_62:
  "stage_inv p 17 w \<Longrightarrow> cell_62 p w = Completed w' \<Longrightarrow> stage_inv p 18 w'"
  by (clarsimp simp: stage_inv_def cell_62_def call_then_def invoke_def
      simp del: json_dumps.simps split: sum.splits)

lemma step_cell_64:
  "stage_inv p 18 w \<Longrightarrow> cell_64 p w = Completed w' \<Longrightarrow> stage_inv p 19 w'"
  by (clarsimp simp: stage_inv_def cell_64_def call_then_def invoke_def Let_def
      simp del: json_dumps.simps split: sum.splits)

subsection \<open>Any number of cells\<close>

lemma run_cells_append:
  "run_cells p (cs @ ds) w =
     (case run_cells p cs w of
        None \<Rightarrow> None
      | Some (Raised e w') \<Rightarrow> Some (Raised e w')
      | Some (Completed w') \<Rightarrow> run_cells p ds w')"
  by (induction cs arbitrary: w) (auto split: option.splits outcome.splits)

lemma run_cells_snoc_Completed:
  assumes "run_cells p (cs @ [c]) w = Some (Completed w')"
  shows "\<exists>w1. run_cells p cs w = Some (Completed w1) \<and> c p w1 = Some (Completed w')"
  using assms unfolding run_cells_append
  by (auto split: option.splits outcome.splits)

lemma length_notebook_cells: "length notebook_cells = 19"
  by (simp add: notebook_cells_def)

lemma notebook_step:
  assumes "k < 19" and "stage_inv p k w" and "(notebook_cells ! k) p w = Some (Completed w')"
  shows "stage_inv p (Suc k) w'"
proof -
  from assms(1) have "k = 0 \<or> k = 1 \<or> k = 2 \<or> k = 3 \<or> k = 4 \<or> k = 5 \<or> k = 6
    \<or> k = 7 \<or> k = 8 \<or> k = 9 \<or> k = 10 \<or> k = 11 \<or> k = 12 \<or> k = 13 \<or> k = 14
    \<or> k = 15 \<or> k = 16 \<or> k = 17 \<or> k = 18"
    by arith
  then consider "k = 0" | "k = 1" | "k = 2" | "k = 3" | "k = 4" | "k = 5" | "k = 6"
    | "k = 7" | "k = 8" | "k = 9" | "k = 10" | "k = 11" | "k = 12" | "k = 13" | "k = 14"
    | "k = 15" | "k = 16" | "k = 17" | "k = 18"
    by blast
  then show ?thesis
  proof cases
    case 1 with assms(2,3) step_cell_8 [of p w w'] show ?thesis
      by (simp add: notebook_cells_def total_def)
  next
    case 2 with assms(2,3) step_cell_14 [of p w w'] show ?thesis
      by (simp add: notebook_cells_def total_def numeral_2_eq_2)
  next
    case 3 with assms(2,3) step_cell_19 [of p w w'] show ?thesis
      by (simp add: notebook_cells_def total_def)
  next
    case 4 with assms(2,3) step_cell_23 [of p w w'] show ?thesis
      by (simp add: notebook_cells_def total_def)
  next
    case 5 with assms(2,3) step_cell_25 [of p w w'] show ?thesis
      by (simp add: notebook_cells_def total_def)
  next
    case 6 with assms(2,3) step_cell_28 [of p w w'] show ?thesis
      by (simp add: notebook_cells_def total_def)
  next
    case 7 with assms(2,3) step_cell_30 [of p w w'] show ?thesis
      by (simp add: notebook_cells_def total_def)
  next
    case 8 with assms(2,3) step_cell_33 [of p w w'] show ?thesis
      by (simp add: notebook_cells_def total_def)
  next
    case 9 with assms(2,3) step_cell_37 [of p w w'] show ?thesis
      by (simp add: notebook_cells_def total_def)
  next
    case 10 with assms(2,3) step_cell_39 [of p w w'] show ?thesis
      by (simp add: notebook_cells_def total_def)
  next
    case 11 with assms(2,3) step_cell_41 [of p w w'] show ?thesis
      by (simp add: notebook_cells_def total_def)
  next
    case 12 with assms(2,3) step_cell_46 [of p w w'] show ?thesis
      by (simp add: notebook_cells_def total_def)
  next
    case 13 with assms(2,3) step_cell_49 [of p w w'] show ?thesis
      by (simp add: notebook_cells_def total_def)
  next
    case 14 with assms(2,3) step_cell_51 [of p w w'] show ?thesis
      by (simp add: notebook_cells_def total_def)
  next
    case 15 with assms(2,3) step_cell_54 [of p w w'] show ?thesis
      by (simp add: notebook_cells_def total_def)
  next
    case 16 with assms(2,3) step_cell_56 [of p w w'] show ?thesis
      by (simp add: notebook_cells_def total_def)
  next
    case 17 with assms(2,3) step_cell_58 [of p w w'] show ?thesis
      by (simp add: notebook_cells_def total_def)
  next
    case 18 with assms(2,3) step_cell_62 [of p w w'] show ?thesis
      by (simp add: notebook_cells_def total_def)
  next
    case 19 with assms(2,3) step_cell_64 [of p w w'] show ?thesis
      by (simp add: notebook_cells_def total_def)
  qed
qed

lemma stage_inv_start: "calls w = [] \<Longrightarrow> stage_inv p 0 w"
  by (simp add: stage_inv_def)

lemma stage_inv_prefix:
  "n \<le> 19 \<Longrightarrow> calls w0 = [] \<Longrightarrow>
   run_cells p (take n notebook_cells) w0 = Some (Completed w) \<Longrightarrow> stage_inv p n w"
proof (induction n arbitrary: w)
  case 0
  then show ?case by (simp add: stage_inv_start)
next
  case (Suc n)
  from Suc.prems(1) have n: "n < length notebook_cells"
    by (simp add: length_notebook_cells)
  then have "take (Suc n) notebook_cells = take n notebook_cells @ [notebook_cells ! n]"
    by (rule take_Suc_conv_app_nth)
  with Suc.prems(3) obtain w1 where
    a: "run_cells p (take n notebook_cells) w0 = Some (Completed w1)"
    and b: "(notebook_cells ! n) p w1 = Some (Completed w)"
    using run_cells_snoc_Completed by metis
  from Suc.prems(1) have "n \<le> 19" by simp
  from Suc.IH [OF this Suc.prems(2) a] have c: "stage_inv p n w1" .
  from Suc.prems(1) have "n < 19" by simp
  then show ?case using c b by (rule notebook_step)
qed

lemma stage_inv_reached:
  assumes "calls w0 = []" and "run_cells p (take n notebook_cells) w0 = Some (Completed w)"
  shows "stage_inv p (min n 19) w"
proof -
  have "take n notebook_cells = take (min n 19) notebook_cells"
    by (simp add: min_def length_notebook_cells)
  with assms(2) have "run_cells p (take (min n 19) notebook_cells) w0 = Some (Completed w)"
    by simp
  with assms(1) show ?thesis by (intro stage_inv_prefix) simp_all
qed

section \<open>What the notebook threads from cell to cell\<close>

text \<open>
  A run of the whole notebook on a platform on which every call returns and the job run
  succeeds.
\<close>

lemma example_run:
  "case notebook (platform_with ''SUCCEEDED'') fresh_kernel of
     Some (Completed w) \<Rightarrow>
       default_bucket w = ''aws-glue-123456789012-eu-west-1''
       \<and> timestamp_prefix w = ''2019-01-01-00-00-00''
       \<and> job_run_status w = ''SUCCEEDED''
   | _ \<Rightarrow> False"
  by code_simp

lemma example_run_Completed:
  "\<exists>w. run_cells (platform_with ''SUCCEEDED'') (take 19 notebook_cells) fresh_kernel
         = Some (Completed w)
     \<and> default_bucket w = ''aws-glue-123456789012-eu-west-1''
     \<and> timestamp_prefix w = ''2019-01-01-00-00-00''"
proof -
  have "take 19 notebook_cells = notebook_cells"
    by (simp add: length_notebook_cells)
  with example_run show ?thesis
    by (auto simp: notebook_def split: option.splits outcome.splits)
qed

lemma calls_fresh_kernel: "calls fresh_kernel = []"
  by (simp add: fresh_kernel_def)

text \<open>
  \<^bold>\<open>C10.\<close> Whenever the notebook has completed its first 13 cells or more (the cells
  up to the one that builds the pipeline model), starting with an empty log: the clock
  was read exactly once, and \<^verbatim>\<open>timestamp_prefix\<close> is that reading; exactly one job
  run was started, and its arguments pass the bucket \<^verbatim>\<open>default_bucket\<close> for input,
  output and model, the output prefix \<^verbatim>\<open>timestamp_prefix + '/dbpedia'\<close> and the model
  prefix, which is the output prefix followed by \<^verbatim>\<open>'/mleap'\<close>; the training inputs
  \<^verbatim>\<open>s3_train_data\<close> and \<^verbatim>\<open>s3_validation_data\<close> are the output bucket and prefix
  passed to the job run followed by \<^verbatim>\<open>train\<close> and \<^verbatim>\<open>validation\<close>, and they are the
  channels the training was called with; \<^verbatim>\<open>sparkml_data\<close> is the model bucket and
  prefix passed to the job run followed by \<^verbatim>\<open>model.tar.gz\<close>, and it is the artifact
  of the SparkML model.
\<close>

theorem storage_locations_are_threaded:
  assumes "calls w0 = []"
    and "13 \<le> n"
    and "run_cells p (take n notebook_cells) w0 = Some (Completed w)"
  shows "clock_reads (calls w) = [''%Y-%m-%d-%H-%M-%S'']
     \<and> respond p (Strftime ''%Y-%m-%d-%H-%M-%S'') 0 = Inr (timestamp_prefix w)
     \<and> job_runs_started (calls w) =
         [(''sparkml-dbpedia-'' @ timestamp_prefix w,
           [(''--S3_INPUT_BUCKET'', default_bucket w),
            (''--S3_INPUT_KEY_PREFIX'', ''input/dbpedia''),
            (''--S3_OUTPUT_BUCKET'', default_bucket w),
            (''--S3_OUTPUT_KEY_PREFIX'', timestamp_prefix w @ ''/dbpedia''),
            (''--S3_MODEL_BUCKET'', default_bucket w),
            (''--S3_MODEL_KEY_PREFIX'', (timestamp_prefix w @ ''/dbpedia'') @ ''/mleap'')])]
     \<and> s3_output_key_prefix w = timestamp_prefix w @ ''/dbpedia''
     \<and> s3_model_key_prefix w = s3_output_key_prefix w @ ''/mleap''
     \<and> s3_train_data w = format_s3 (default_bucket w) (timestamp_prefix w @ ''/dbpedia'') ''train''
     \<and> s3_validation_data w =
         format_s3 (default_bucket w) (timestamp_prefix w @ ''/dbpedia'') ''validation''
     \<and> sparkml_data w =
         format_s3 (default_bucket w) ((timestamp_prefix w @ ''/dbpedia'') @ ''/mleap'') ''model.tar.gz''
     \<and> trainings (calls w) = [(bt_estimator w, data_channels w)]
     \<and> map (\<lambda>kv. (fst kv, s3_data (snd kv))) (data_channels w) =
         [(''train'', s3_train_data w), (''validation'', s3_validation_data w)]
     \<and> model_data (sparkml_model w) = sparkml_data w"
proof -
  from stage_inv_reached [OF assms(1,3)] have inv: "stage_inv p (min n 19) w" .
  from assms(2) have n: "13 \<le> min n 19" by simp
  from inv n show ?thesis
    unfolding stage_inv_def by (simp split: if_splits)
qed

theorem storage_locations_are_threaded_witness:
  "\<exists>w. run_cells (platform_with ''SUCCEEDED'') (take 19 notebook_cells) fresh_kernel
          = Some (Completed w)
     \<and> job_runs_started (calls w) =
         [(''sparkml-dbpedia-2019-01-01-00-00-00'',
           [(''--S3_INPUT_BUCKET'', ''aws-glue-123456789012-eu-west-1''),
            (''--S3_INPUT_KEY_PREFIX'', ''input/dbpedia''),
            (''--S3_OUTPUT_BUCKET'', ''aws-glue-123456789012-eu-west-1''),
            (''--S3_OUTPUT_KEY_PREFIX'', ''2019-01-01-00-00-00/dbpedia''),
            (''--S3_MODEL_BUCKET'', ''aws-glue-123456789012-eu-west-1''),
            (''--S3_MODEL_KEY_PREFIX'', ''2019-01-01-00-00-00/dbpedia/mleap'')])]
     \<and> s3_train_data w = ''s3://aws-glue-123456789012-eu-west-1/2019-01-01-00-00-00/dbpedia/train''
     \<and> s3_validation_data w =
         ''s3://aws-glue-123456789012-eu-west-1/2019-01-01-00-00-00/dbpedia/validation''
     \<and> sparkml_data w =
         ''s3://aws-glue-123456789012-eu-west-1/2019-01-01-00-00-00/dbpedia/mleap/model.tar.gz''"
proof -
  from example_run_Completed obtain w where
    run: "run_cells (platform_with ''SUCCEEDED'') (take 19 notebook_cells) fresh_kernel
          = Some (Completed w)"
    and b: "default_bucket w = ''aws-glue-123456789012-eu-west-1''"
    and t: "timestamp_prefix w = ''2019-01-01-00-00-00''"
    by (elim exE conjE)
  have n: "(13::nat) \<le> 19" by simp
  have "job_runs_started (calls w) =
         [(''sparkml-dbpedia-2019-01-01-00-00-00'',
           [(''--S3_INPUT_BUCKET'', ''aws-glue-123456789012-eu-west-1''),
            (''--S3_INPUT_KEY_PREFIX'', ''input/dbpedia''),
            (''--S3_OUTPUT_BUCKET'', ''aws-glue-123456789012-eu-west-1''),
            (''--S3_OUTPUT_KEY_PREFIX'', ''2019-01-01-00-00-00/dbpedia''),
            (''--S3_MODEL_BUCKET'', ''aws-glue-123456789012-eu-west-1''),
            (''--S3_MODEL_KEY_PREFIX'', ''2019-01-01-00-00-00/dbpedia/mleap'')])]
     \<and> s3_train_data w = ''s3://aws-glue-123456789012-eu-west-1/2019-01-01-00-00-00/dbpedia/train''
     \<and> s3_validation_data w =
         ''s3://aws-glue-123456789012-eu-west-1/2019-01-01-00-00-00/dbpedia/validation''
     \<and> sparkml_data w =
         ''s3://aws-glue-123456789012-eu-west-1/2019-01-01-00-00-00/dbpedia/mleap/model.tar.gz''"
    using storage_locations_are_threaded [OF calls_fresh_kernel n run]
    unfolding b t by (simp add: format_s3_def)
  with run show ?thesis by (intro exI [of _ w] conjI) simp_all
qed

section \<open>The pipeline model\<close>

lemma dict_items_set: "set (dict_items rank kvs) = set kvs"
  by (simp add: dict_items_def)

lemma dict_items_length: "length (dict_items rank kvs) = length kvs"
  by (simp add: dict_items_def)

lemma json_dumps_JObject:
  "\<exists>items. json_dumps rank (JObject kvs) = ''{'' @ join '', '' items @ ''}''
     \<and> set items = (\<lambda>kv. json_string (fst kv) @ '': '' @ json_dumps rank (snd kv)) ` set kvs
     \<and> length items = length kvs"
proof -
  let ?dumped = "map (\<lambda>kv. (fst kv, json_dumps rank (snd kv))) kvs"
  let ?items = "map (\<lambda>kv. json_string (fst kv) @ '': '' @ snd kv) (dict_items rank ?dumped)"
  have "json_dumps rank (JObject kvs) = ''{'' @ join '', '' ?items @ ''}''"
    by simp
  moreover have "set ?items =
      (\<lambda>kv. json_string (fst kv) @ '': '' @ json_dumps rank (snd kv)) ` set kvs"
    by (simp add: dict_items_set image_image)
  moreover have "length ?items = length kvs"
    by (simp add: dict_items_length)
  ultimately show ?thesis by blast
qed

lemma json_dumps_schema:
  \<open>\<exists>top inp out.
       json_dumps rank schema = ''{'' @ join '', '' top @ ''}''
     \<and> set top = {''"input": [{'' @ join '', '' inp @ ''}]'',
                  ''"output": {'' @ join '', '' out @ ''}''}
     \<and> length top = 2
     \<and> set inp = {''"name": "abstract"'', ''"type": "string"''}
     \<and> length inp = 2
     \<and> set out = {''"name": "tokenized_abstract"'', ''"type": "string"'', ''"struct": "array"''}
     \<and> length out = 3\<close>
proof -
  let ?inp = "[(''name'', JString ''abstract''), (''type'', JString ''string'')]"
  let ?out = "[(''name'', JString ''tokenized_abstract''), (''type'', JString ''string''),
               (''struct'', JString ''array'')]"
  from json_dumps_JObject [of rank ?inp] obtain inp where
    inp: "json_dumps rank (JObject ?inp) = ''{'' @ join '', '' inp @ ''}''"
    and inp_set: "set inp =
      (\<lambda>kv. json_string (fst kv) @ '': '' @ json_dumps rank (snd kv)) ` set ?inp"
    and inp_length: "length inp = length ?inp"
    by (elim exE conjE)
  from json_dumps_JObject [of rank ?out] obtain out where
    out: "json_dumps rank (JObject ?out) = ''{'' @ join '', '' out @ ''}''"
    and out_set: "set out =
      (\<lambda>kv. json_string (fst kv) @ '': '' @ json_dumps rank (snd kv)) ` set ?out"
    and out_length: "length out = length ?out"
    by (elim exE conjE)
  let ?top = "[(''input'', JArray [JObject ?inp]), (''output'', JObject ?out)]"
  from json_dumps_JObject [of rank ?top] obtain top where
    top: "json_dumps rank (JObject ?top) = ''{'' @ join '', '' top @ ''}''"
    and top_set: "set top =
      (\<lambda>kv. json_string (fst kv) @ '': '' @ json_dumps rank (snd kv)) ` set ?top"
    and top_length: "length top = length ?top"
    by (elim exE conjE)
  have array: "json_dumps rank (JArray [JObject ?inp]) = ''['' @ json_dumps rank (JObject ?inp) @ '']''"
    by (simp del: json_dumps.simps(3))
  have a: "json_dumps rank schema = ''{'' @ join '', '' top @ ''}''"
    unfolding schema_def by (rule top)
  have b: \<open>set top = {''"input": [{'' @ join '', '' inp @ ''}]'',
                  ''"output": {'' @ join '', '' out @ ''}''}\<close>
    unfolding top_set by (simp add: array inp out json_string_def json_escape_def
        del: json_dumps.simps(2,3))
  have c: \<open>set inp = {''"name": "abstract"'', ''"type": "string"''}\<close>
    unfolding inp_set by (simp add: json_string_def json_escape_def)
  have d: \<open>set out = {''"name": "tokenized_abstract"'', ''"type": "string"'', ''"struct": "array"''}\<close>
    unfolding out_set by (simp add: json_string_def json_escape_def)
  from a b c d inp_length out_length top_length show ?thesis
    by (intro exI [of _ top] exI [of _ inp] exI [of _ out]) simp
qed

text \<open>
  \<^bold>\<open>C6.\<close> Whenever the notebook has completed its first 14 cells or more (up to the
  deployment, which registers the models), starting with an empty log: the one
  deployment carries the pipeline model whose first model is the SparkML model, and the
  environment of that model has exactly two entries: the schema descriptor under
  \<^verbatim>\<open>SAGEMAKER_SPARKML_SCHEMA\<close>, and \<^verbatim>\<open>application/jsonlines;data=text\<close> under
  \<^verbatim>\<open>SAGEMAKER_DEFAULT_INVOCATIONS_ACCEPT\<close>. The schema descriptor is \<^verbatim>\<open>json.dumps\<close> of
  the schema of cell 46, as the kernel writes it; the order in which the kernel writes
  the keys of a dict is left open, so the text is given up to that order: an object of
  the two members \<^verbatim>\<open>input\<close> (a list of one object, of the members \<^verbatim>\<open>name\<close> and
  \<^verbatim>\<open>type\<close>) and \<^verbatim>\<open>output\<close> (an object of the members \<^verbatim>\<open>name\<close>, \<^verbatim>\<open>type\<close> and
  \<^verbatim>\<open>struct\<close>). The BlazingText model is given no environment. (That the container's
  output without the override would be CSV is a fact of the container, not of the
  notebook.)
\<close>

theorem sparkml_model_overrides_accept:
  assumes "calls w0 = []"
    and "14 \<le> n"
    and "run_cells p (take n notebook_cells) w0 = Some (Completed w)"
  shows \<open>(\<exists>pipeline endpoint sparkml rest.
            deployments (calls w) = [(pipeline, endpoint)]
          \<and> models pipeline = sparkml # rest
          \<and> sparkml = sparkml_model w
          \<and> model_class sparkml = SparkMLModel
          \<and> dom (map_of (env sparkml)) =
              {''SAGEMAKER_SPARKML_SCHEMA'', ''SAGEMAKER_DEFAULT_INVOCATIONS_ACCEPT''}
          \<and> length (env sparkml) = 2
          \<and> map_of (env sparkml) ''SAGEMAKER_DEFAULT_INVOCATIONS_ACCEPT''
              = Some ''application/jsonlines;data=text''
          \<and> map_of (env sparkml) ''SAGEMAKER_SPARKML_SCHEMA''
              = Some (json_dumps (dict_rank p) schema))
     \<and> (\<exists>top inp out.
            json_dumps (dict_rank p) schema = ''{'' @ join '', '' top @ ''}''
          \<and> set top = {''"input": [{'' @ join '', '' inp @ ''}]'',
                       ''"output": {'' @ join '', '' out @ ''}''}
          \<and> length top = 2
          \<and> set inp = {''"name": "abstract"'', ''"type": "string"''}
          \<and> length inp = 2
          \<and> set out = {''"name": "tokenized_abstract"'', ''"type": "string"'',
                       ''"struct": "array"''}
          \<and> length out = 3)
     \<and> env (bt_model w) = []\<close>
proof -
  from stage_inv_reached [OF assms(1,3)] have inv: "stage_inv p (min n 19) w" .
  from assms(2) have n: "14 \<le> min n 19" by simp
  from inv n have a: "deployments (calls w) = [(sm_model w, endpoint_name w)]"
    and b: "sm_model w =
          \<lparr>pipeline_name = model_name w, pipeline_role = role w,
           models = [sparkml_model w, bt_model w]\<rparr>"
    and c: "sparkml_model w =
          \<lparr>model_class = SparkMLModel, model_data = sparkml_data w, image = None,
           env = [(''SAGEMAKER_SPARKML_SCHEMA'', schema_json w),
                  (''SAGEMAKER_DEFAULT_INVOCATIONS_ACCEPT'', ''application/jsonlines;data=text'')]\<rparr>"
    and i: "env (bt_model w) = []"
    and e: "schema_json w = json_dumps (dict_rank p) schema"
    unfolding stage_inv_def by (simp_all split: if_splits del: json_dumps.simps)
  have f: "models (sm_model w) = sparkml_model w # [bt_model w]"
    by (subst b) simp
  have g: "model_class (sparkml_model w) = SparkMLModel"
    by (subst c) simp
  have h: "env (sparkml_model w) =
      [(''SAGEMAKER_SPARKML_SCHEMA'', json_dumps (dict_rank p) schema),
       (''SAGEMAKER_DEFAULT_INVOCATIONS_ACCEPT'', ''application/jsonlines;data=text'')]"
    by (subst c) (simp add: e del: json_dumps.simps)
  have "dom (map_of (env (sparkml_model w))) =
              {''SAGEMAKER_SPARKML_SCHEMA'', ''SAGEMAKER_DEFAULT_INVOCATIONS_ACCEPT''}
          \<and> length (env (sparkml_model w)) = 2
          \<and> map_of (env (sparkml_model w)) ''SAGEMAKER_DEFAULT_INVOCATIONS_ACCEPT''
              = Some ''application/jsonlines;data=text''
          \<and> map_of (env (sparkml_model w)) ''SAGEMAKER_SPARKML_SCHEMA''
              = Some (json_dumps (dict_rank p) schema)"
    unfolding h by (simp add: dom_map_of_conv_image_fst del: json_dumps.simps)
  with a f g have "\<exists>pipeline endpoint sparkml rest.
            deployments (calls w) = [(pipeline, endpoint)]
          \<and> models pipeline = sparkml # rest
          \<and> sparkml = sparkml_model w
          \<and> model_class sparkml = SparkMLModel
          \<and> dom (map_of (env sparkml)) =
              {''SAGEMAKER_SPARKML_SCHEMA'', ''SAGEMAKER_DEFAULT_INVOCATIONS_ACCEPT''}
          \<and> length (env sparkml) = 2
          \<and> map_of (env sparkml) ''SAGEMAKER_DEFAULT_INVOCATIONS_ACCEPT''
              = Some ''application/jsonlines;data=text''
          \<and> map_of (env sparkml) ''SAGEMAKER_SPARKML_SCHEMA''
              = Some (json_dumps (dict_rank p) schema)"
    by (intro exI [of _ "sm_model w"] exI [of _ "endpoint_name w"]
        exI [of _ "sparkml_model w"] exI [of _ "[bt_model w]"]) (simp del: json_dumps.simps)
  with i json_dumps_schema [of "dict_rank p"] show ?thesis
    by (intro conjI)
qed

theorem sparkml_model_overrides_accept_witness:
  \<open>\<exists>w. run_cells (platform_with ''SUCCEEDED'') (take 19 notebook_cells) fresh_kernel
          = Some (Completed w)
     \<and> map_of (env (hd (models (fst (hd (deployments (calls w)))))))
          ''SAGEMAKER_DEFAULT_INVOCATIONS_ACCEPT'' = Some ''application/jsonlines;data=text''
     \<and> map_of (env (hd (models (fst (hd (deployments (calls w)))))))
          ''SAGEMAKER_SPARKML_SCHEMA'' =
         Some (json_dumps (dict_rank (platform_with ''SUCCEEDED'')) schema)
     \<and> dom (map_of (env (hd (models (fst (hd (deployments (calls w)))))))) =
         {''SAGEMAKER_SPARKML_SCHEMA'', ''SAGEMAKER_DEFAULT_INVOCATIONS_ACCEPT''}\<close>
proof -
  from example_run_Completed obtain w where
    run: "run_cells (platform_with ''SUCCEEDED'') (take 19 notebook_cells) fresh_kernel
          = Some (Completed w)"
    by (elim exE conjE)
  have n: "(14::nat) \<le> 19" by simp
  from sparkml_model_overrides_accept [OF calls_fresh_kernel n run]
  obtain pipeline endpoint sparkml rest where
    a: "deployments (calls w) = [(pipeline, endpoint)]"
    and b: "models pipeline = sparkml # rest"
    and c: "map_of (env sparkml) ''SAGEMAKER_DEFAULT_INVOCATIONS_ACCEPT''
              = Some ''application/jsonlines;data=text''"
    and d: "map_of (env sparkml) ''SAGEMAKER_SPARKML_SCHEMA''
              = Some (json_dumps (dict_rank (platform_with ''SUCCEEDED'')) schema)"
    and f: "dom (map_of (env sparkml)) =
              {''SAGEMAKER_SPARKML_SCHEMA'', ''SAGEMAKER_DEFAULT_INVOCATIONS_ACCEPT''}"
    by (elim exE conjE)
  have e: "hd (models (fst (hd (deployments (calls w))))) = sparkml"
    unfolding a by (simp add: b)
  show ?thesis
    using run c d f unfolding e [symmetric]
    by (intro exI [of _ w] conjI)
qed



section \<open>After the poller\<close>

subsection \<open>No cell after cell 33 reads the status\<close>

lemma status_swaps:
  "w\<lparr>job_run_status := s, calls := x1\<rparr> = w\<lparr>calls := x1, job_run_status := s\<rparr>"
  "w\<lparr>job_run_status := s, training_image := x2\<rparr> = w\<lparr>training_image := x2, job_run_status := s\<rparr>"
  "w\<lparr>job_run_status := s, s3_train_data := x3\<rparr> = w\<lparr>s3_train_data := x3, job_run_status := s\<rparr>"
  "w\<lparr>job_run_status := s, s3_validation_data := x4\<rparr> = w\<lparr>s3_validation_data := x4, job_run_status := s\<rparr>"
  "w\<lparr>job_run_status := s, s3_output_location := x5\<rparr> = w\<lparr>s3_output_location := x5, job_run_status := s\<rparr>"
  "w\<lparr>job_run_status := s, bt_estimator := x6\<rparr> = w\<lparr>bt_estimator := x6, job_run_status := s\<rparr>"
  "w\<lparr>job_run_status := s, data_channels := x7\<rparr> = w\<lparr>data_channels := x7, job_run_status := s\<rparr>"
  "w\<lparr>job_run_status := s, schema_json := x9\<rparr> = w\<lparr>schema_json := x9, job_run_status := s\<rparr>"
  "w\<lparr>job_run_status := s, sparkml_data := x10\<rparr> = w\<lparr>sparkml_data := x10, job_run_status := s\<rparr>"
  "w\<lparr>job_run_status := s, sparkml_model := x11\<rparr> = w\<lparr>sparkml_model := x11, job_run_status := s\<rparr>"
  "w\<lparr>job_run_status := s, bt_model := x12\<rparr> = w\<lparr>bt_model := x12, job_run_status := s\<rparr>"
  "w\<lparr>job_run_status := s, model_name := x13\<rparr> = w\<lparr>model_name := x13, job_run_status := s\<rparr>"
  "w\<lparr>job_run_status := s, sm_model := x14\<rparr> = w\<lparr>sm_model := x14, job_run_status := s\<rparr>"
  "w\<lparr>job_run_status := s, endpoint_name := x15\<rparr> = w\<lparr>endpoint_name := x15, job_run_status := s\<rparr>"
  "w\<lparr>job_run_status := s, batch_input_loc := x16\<rparr> = w\<lparr>batch_input_loc := x16, job_run_status := s\<rparr>"
  "w\<lparr>job_run_status := s, input_data_path := x17\<rparr> = w\<lparr>input_data_path := x17, job_run_status := s\<rparr>"
  "w\<lparr>job_run_status := s, output_data_path := x18\<rparr> = w\<lparr>output_data_path := x18, job_run_status := s\<rparr>"
  "w\<lparr>job_run_status := s, the_transformer := x19\<rparr> = w\<lparr>the_transformer := x19, job_run_status := s\<rparr>"
  by (cases w, simp)+

lemma with_status_simps [simp]:
  "with_status s (Raised e w) = Raised e (w\<lparr>job_run_status := s\<rparr>)"
  "with_status s (Completed w) = Completed (w\<lparr>job_run_status := s\<rparr>)"
  by (simp_all add: with_status_def)

lemma effect_status:
  "effect c (w\<lparr>job_run_status := s\<rparr>) = (effect c w)\<lparr>job_run_status := s\<rparr>"
  by (simp add: effect_def status_swaps)

lemma call_then_status:
  assumes "\<And>v u. k v (u\<lparr>job_run_status := s\<rparr>) = with_status s (k v u)"
  shows "call_then p c (w\<lparr>job_run_status := s\<rparr>) k = with_status s (call_then p c w k)"
proof (cases "respond p c (count_list (calls w) c)")
  case (Inl e)
  then show ?thesis by (simp add: call_then_def invoke_def status_swaps)
next
  case (Inr v)
  then show ?thesis by (simp add: call_then_def invoke_def status_swaps assms)
qed

lemma cell_37_status:
  "cell_37 p (w\<lparr>job_run_status := s\<rparr>) = with_status s (cell_37 p w)"
  by (simp add: cell_37_def status_swaps effect_status call_then_status del: json_dumps.simps)

lemma cell_39_status:
  "cell_39 p (w\<lparr>job_run_status := s\<rparr>) = with_status s (cell_39 p w)"
  by (simp add: cell_39_def Let_def status_swaps effect_status call_then_status del: json_dumps.simps)

lemma cell_41_status:
  "cell_41 p (w\<lparr>job_run_status := s\<rparr>) = with_status s (cell_41 p w)"
  by (simp add: cell_41_def status_swaps effect_status call_then_status del: json_dumps.simps)

lemma cell_46_status:
  "cell_46 p (w\<lparr>job_run_status := s\<rparr>) = with_status s (cell_46 p w)"
  by (simp add: cell_46_def Let_def status_swaps effect_status call_then_status del: json_dumps.simps)

lemma cell_49_status:
  "cell_49 p (w\<lparr>job_run_status := s\<rparr>) = with_status s (cell_49 p w)"
  by (simp add: cell_49_def Let_def status_swaps effect_status call_then_status del: json_dumps.simps)

lemma cell_51_status:
  "cell_51 p (w\<lparr>job_run_status := s\<rparr>) = with_status s (cell_51 p w)"
  by (simp add: cell_51_def Let_def status_swaps effect_status call_then_status del: json_dumps.simps)

lemma cell_54_status:
  "cell_54 p (w\<lparr>job_run_status := s\<rparr>) = with_status s (cell_54 p w)"
  by (simp add: cell_54_def Let_def status_swaps effect_status call_then_status del: json_dumps.simps)

lemma cell_56_status:
  "cell_56 p (w\<lparr>job_run_status := s\<rparr>) = with_status s (cell_56 p w)"
  by (simp add: cell_56_def Let_def status_swaps effect_status call_then_status del: json_dumps.simps)

lemma cell_58_status:
  "cell_58 p (w\<lparr>job_run_status := s\<rparr>) = with_status s (cell_58 p w)"
  by (simp add: cell_58_def status_swaps effect_status call_then_status del: json_dumps.simps)

lemma cell_62_status:
  "cell_62 p (w\<lparr>job_run_status := s\<rparr>) = with_status s (cell_62 p w)"
  by (simp add: cell_62_def status_swaps effect_status call_then_status del: json_dumps.simps)

lemma cell_64_status:
  "cell_64 p (w\<lparr>job_run_status := s\<rparr>) = with_status s (cell_64 p w)"
  by (simp add: cell_64_def Let_def status_swaps effect_status call_then_status del: json_dumps.simps)

lemma run_cells_status:
  assumes "\<And>c w. c \<in> set cs \<Longrightarrow>
      c p (w\<lparr>job_run_status := s\<rparr>) = map_option (with_status s) (c p w)"
  shows "run_cells p cs (w\<lparr>job_run_status := s\<rparr>) = map_option (with_status s) (run_cells p cs w)"
  using assms
proof (induction cs arbitrary: w)
  case Nil
  show ?case by simp
next
  case (Cons c cs)
  have c: "c p (w\<lparr>job_run_status := s\<rparr>) = map_option (with_status s) (c p w)"
    by (rule Cons.prems) simp
  have rest: "run_cells p cs (v\<lparr>job_run_status := s\<rparr>)
      = map_option (with_status s) (run_cells p cs v)" for v
    by (rule Cons.IH) (simp add: Cons.prems)
  show ?case
  proof (cases "c p w")
    case None
    with c show ?thesis by simp
  next
    case (Some r)
    show ?thesis
    proof (cases r)
      case (Raised e v)
      with Some c show ?thesis by simp
    next
      case (Completed v)
      with Some c rest [of v] show ?thesis by simp
    qed
  qed
qed

lemma cells_after_poller:
  "drop 8 notebook_cells =
     [total cell_37, total cell_39, total cell_41, total cell_46, total cell_49,
      total cell_51, total cell_54, total cell_56, total cell_58, total cell_62,
      total cell_64]"
  by (simp add: notebook_cells_def)

lemma after_poller_status:
  "run_cells p (drop 8 notebook_cells) (w\<lparr>job_run_status := s\<rparr>)
     = map_option (with_status s) (run_cells p (drop 8 notebook_cells) w)"
proof (rule run_cells_status)
  fix c v
  assume "c \<in> set (drop 8 notebook_cells)"
  then consider "c = total cell_37" | "c = total cell_39" | "c = total cell_41"
    | "c = total cell_46" | "c = total cell_49" | "c = total cell_51" | "c = total cell_54"
    | "c = total cell_56" | "c = total cell_58" | "c = total cell_62" | "c = total cell_64"
    unfolding cells_after_poller by auto
  then show "c p (v\<lparr>job_run_status := s\<rparr>) = map_option (with_status s) (c p v)"
    by cases
      (simp_all add: total_def cell_37_status cell_39_status cell_41_status cell_46_status
        cell_49_status cell_51_status cell_54_status cell_56_status cell_58_status
        cell_62_status cell_64_status)
qed

subsection \<open>The training call\<close>

lemma training_cells_run:
  assumes "respond p (GetImageUri (region_name p) ''blazingtext'' ''latest'')
      (count_list (calls w) (GetImageUri (region_name p) ''blazingtext'' ''latest'')) = Inr v"
  shows "\<exists>r. run_cells p training_cells w = Some r
     \<and> calls (world_of r) =
         calls w @ [GetImageUri (region_name p) ''blazingtext'' ''latest'', Print v,
                    Fit (bt_estimator (world_of r)) (data_channels (world_of r))]
     \<and> image_name (bt_estimator (world_of r)) = v
     \<and> map (\<lambda>kv. (fst kv, s3_data (snd kv))) (data_channels (world_of r)) =
         [(''train'', format_s3 (s3_output_bucket w) (s3_output_key_prefix w) ''train''),
          (''validation'', format_s3 (s3_output_bucket w) (s3_output_key_prefix w) ''validation'')]"
  using assms
  by (simp add: training_cells_def total_def cell_37_def cell_39_def cell_41_def call_then_def
      invoke_def effect_def world_of_def Let_def split: sum.splits)

text \<open>
  \<^bold>\<open>C3.\<close> Let the poll loop have exited, in the state \<open>w\<close>. Its status is one of
  the three terminal values, and nothing after the loop looks at which: cells 37, 39 and
  41, the cells that follow cell 33, run from \<open>w\<close> exactly as they run from \<open>w\<close>
  with any other status \<open>s\<close> in its place, and so does the whole rest of the
  notebook; the status is only carried along. In particular, once
  \<^verbatim>\<open>get_image_uri\<close> has returned, \<^verbatim>\<open>bt_model.fit\<close> is called, on the \<^verbatim>\<open>train\<close> and
  \<^verbatim>\<open>validation\<close> prefixes under the job run's output location, whether the job run
  ended \<^verbatim>\<open>FAILED\<close>, \<^verbatim>\<open>STOPPED\<close> or \<^verbatim>\<open>SUCCEEDED\<close>.
\<close>

theorem training_follows_any_terminal_status:
  assumes "cell_33 p w0 = Some (Completed w)"
  shows "job_run_status w \<in> {''FAILED'', ''SUCCEEDED'', ''STOPPED''}
     \<and> notebook_cells ! 7 = cell_33
     \<and> take 3 (drop 8 notebook_cells) = training_cells
     \<and> (\<forall>s. run_cells p training_cells (w\<lparr>job_run_status := s\<rparr>)
             = map_option (with_status s) (run_cells p training_cells w))
     \<and> (\<forall>s. run_cells p (drop 8 notebook_cells) (w\<lparr>job_run_status := s\<rparr>)
             = map_option (with_status s) (run_cells p (drop 8 notebook_cells) w))
     \<and> (\<forall>v. respond p (GetImageUri (region_name p) ''blazingtext'' ''latest'')
               (count_list (calls w) (GetImageUri (region_name p) ''blazingtext'' ''latest''))
             = Inr v \<longrightarrow>
           (\<exists>r. run_cells p training_cells w = Some r
              \<and> calls (world_of r) =
                  calls w @ [GetImageUri (region_name p) ''blazingtext'' ''latest'', Print v,
                             Fit (bt_estimator (world_of r)) (data_channels (world_of r))]
              \<and> image_name (bt_estimator (world_of r)) = v
              \<and> map (\<lambda>kv. (fst kv, s3_data (snd kv))) (data_channels (world_of r)) =
                  [(''train'', format_s3 (s3_output_bucket w) (s3_output_key_prefix w) ''train''),
                   (''validation'',
                    format_s3 (s3_output_bucket w) (s3_output_key_prefix w) ''validation'')]))"
proof -
  from cell_33_exit_status [OF assms]
  have a: "job_run_status w \<in> {''FAILED'', ''SUCCEEDED'', ''STOPPED''}"
    by (simp add: exits_terminal_def)
  have b: "notebook_cells ! 7 = cell_33"
    by (simp add: notebook_cells_def)
  have c: "take 3 (drop 8 notebook_cells) = training_cells"
    by (simp add: cells_after_poller training_cells_def)
  have d: "run_cells p training_cells (w\<lparr>job_run_status := s\<rparr>)
             = map_option (with_status s) (run_cells p training_cells w)" for s
    by (rule run_cells_status)
      (auto simp: training_cells_def total_def cell_37_status cell_39_status cell_41_status)
  have e: "run_cells p (drop 8 notebook_cells) (w\<lparr>job_run_status := s\<rparr>)
             = map_option (with_status s) (run_cells p (drop 8 notebook_cells) w)" for s
    by (rule after_poller_status)
  from a b c d e training_cells_run [of p w] show ?thesis by blast
qed

theorem training_follows_any_terminal_status_witness:
  "\<exists>w. cell_33 (platform_with ''FAILED'') fresh_kernel = Some (Completed w)
     \<and> job_run_status w = ''FAILED''
     \<and> (\<exists>r. run_cells (platform_with ''FAILED'') training_cells w = Some r
          \<and> trainings (calls (world_of r)) =
              [(bt_estimator (world_of r), data_channels (world_of r))])"
proof -
  let ?p = "platform_with ''FAILED''"
  let ?g = "GetImageUri (region_name ?p) ''blazingtext'' ''latest''"
  obtain w where run: "cell_33 ?p fresh_kernel = Some (Completed w)"
    and st: "job_run_status w = ''FAILED''"
    and cs: "count_list (calls w) ?g = 0"
    by (simp add: cell_33_def call_then_def invoke_def effect_def poll_loop.simps poll_body_def
        platform_with_def fresh_kernel_def)
  have img: "respond ?p ?g (count_list (calls w) ?g) = Inr ''ok''"
    unfolding cs by (simp add: platform_with_def)
  from training_follows_any_terminal_status [OF run] img
  obtain r where r: "run_cells ?p training_cells w = Some r"
    and c: "calls (world_of r) =
        calls w @ [?g, Print ''ok'', Fit (bt_estimator (world_of r)) (data_channels (world_of r))]"
    by blast
  have no: "trainings (calls w) = []"
    using cell_33_frame [OF run] poll_calls_of_no_other_kind(3)
    by (auto simp: fresh_kernel_def)
  have "trainings (calls (world_of r)) = [(bt_estimator (world_of r), data_channels (world_of r))]"
    unfolding c by (simp add: no)
  with run st r show ?thesis by blast
qed

end
